theory Spec2Isabelle
  imports Complex_Main
begin

section \<open>Numeric and geometric primitives\<close>

text \<open>
  The C++ type \<^verbatim>\<open>double\<close> is modelled by \<^typ>\<open>real\<close>: arithmetic is exact, there is
  no rounding, no NaN and no infinity. Non-negative \<^verbatim>\<open>int\<close> counts and point ids are
  modelled by \<^typ>\<open>nat\<close>. A 3-vector (\<^verbatim>\<open>double[3]\<close>, \<^verbatim>\<open>GradientType\<close>) is a triple.
\<close>

type_synonym vec3 = "real \<times> real \<times> real"

text \<open>
  Modelled from the spec: the vector helpers of \<^verbatim>\<open>vtkMath\<close> (VTK, not under src/):
  \<^verbatim>\<open>Subtract(a, b, c)\<close> stores \<open>a - b\<close>, \<^verbatim>\<open>Add(a, b, c)\<close> stores \<open>a + b\<close>, \<^verbatim>\<open>Dot\<close> is the
  scalar product, \<^verbatim>\<open>MultiplyScalar(a, s)\<close> scales in place, and \<^verbatim>\<open>Normalize\<close> divides a
  vector by its Euclidean length and leaves an exactly zero vector as it is ("normalize to
  unit length; if the sum is exactly zero, the contribution for this point is zero").
\<close>

fun Subtract :: "vec3 \<Rightarrow> vec3 \<Rightarrow> vec3" where
  "Subtract (a0, a1, a2) (b0, b1, b2) = (a0 - b0, a1 - b1, a2 - b2)"

fun Add :: "vec3 \<Rightarrow> vec3 \<Rightarrow> vec3" where
  "Add (a0, a1, a2) (b0, b1, b2) = (a0 + b0, a1 + b1, a2 + b2)"

fun Dot :: "vec3 \<Rightarrow> vec3 \<Rightarrow> real" where
  "Dot (a0, a1, a2) (b0, b1, b2) = a0 * b0 + a1 * b1 + a2 * b2"

fun MultiplyScalar :: "vec3 \<Rightarrow> real \<Rightarrow> vec3" where
  "MultiplyScalar (a0, a1, a2) s = (a0 * s, a1 * s, a2 * s)"

definition Norm :: "vec3 \<Rightarrow> real" where
  "Norm v = sqrt (Dot v v)"

definition Normalize :: "vec3 \<Rightarrow> vec3" where
  "Normalize v = (let den = Norm v in if den \<noteq> 0 then MultiplyScalar v (1 / den) else v)"

text \<open>Points of a flat buffer of \<open>3 N\<close> scalars: point \<open>i\<close> owns the slots \<open>3 i\<close>, \<open>3 i + 1\<close>, \<open>3 i + 2\<close>.\<close>

definition get3 :: "real list \<Rightarrow> nat \<Rightarrow> vec3" where
  "get3 d i = (d ! (3 * i), d ! (3 * i + 1), d ! (3 * i + 2))"

fun set3 :: "real list \<Rightarrow> nat \<Rightarrow> vec3 \<Rightarrow> real list" where
  "set3 d i (x, y, z) = d[3 * i := x, 3 * i + 1 := y, 3 * i + 2 := z]"

section \<open>Curvature regularization term (GaussCurvatureConstraint.cc)\<close>

subsection \<open>Auxiliaries\<close>

text \<open>\<^verbatim>\<open>SShapedMembershipFunction(x, a, b)\<close>, lines 48-61.\<close>

definition SShapedMembershipFunction :: "real \<Rightarrow> real \<Rightarrow> real \<Rightarrow> real" where
  "SShapedMembershipFunction x a b =
     (if x \<le> a then 0
      else if x \<ge> b then 1
      else if x \<le> 0.5 * (a + b) then (let t = (x - a) / (b - a) in 2 * t * t)
      else (let t = (x - b) / (b - a) in 1 - 2 * t * t))"

text \<open>
  A point data array with its modification time (\<^verbatim>\<open>vtkDataArray\<close>, one component), and
  the state of the term: the members the code of this file reads or writes. \<open>Status = None\<close>
  is the null \<^verbatim>\<open>_Status\<close> pointer. \<open>EdgeTable ! p\<close> lists the ids of the points adjacent to
  \<open>p\<close>. \<open>MTimeClock\<close> is the last modification time that was handed out.
\<close>

record DataArray =
  Values :: "real list"
  MTime :: nat

record GaussCurvatureConstraint =
  NumberOfPoints :: nat
  Points :: "vec3 list"
  Status :: "real list option"
  EdgeTable :: "nat list list"
  Normals :: "vec3 list"
  SurfaceMTime :: nat
  GaussCurvature :: DataArray
  MeanCurvature :: DataArray
  TermGradient :: "vec3 list"
  MTimeClock :: nat

text \<open>
  \<^verbatim>\<open>parallel_reduce\<close> and \<^verbatim>\<open>parallel_for\<close> hand the body sub-ranges of the blocked range.
  A \<open>splitting\<close> is one way of cutting \<open>[begin, end)\<close>: \<open>Whole\<close> runs the body on the range,
  \<open>Cut m l r\<close> splits it at \<open>m\<close> (a cut outside the range is not taken). The model runs the
  sub-ranges one after the other; the bodies of this code write disjoint slots, one point
  each.
\<close>

datatype splitting = Whole | Cut nat splitting splitting

fun parallel_for :: "splitting \<Rightarrow> (nat \<Rightarrow> nat \<Rightarrow> 's \<Rightarrow> 's) \<Rightarrow> nat \<Rightarrow> nat \<Rightarrow> 's \<Rightarrow> 's" where
  "parallel_for Whole body b e s = body b e s"
| "parallel_for (Cut m l r) body b e s =
     (if b < m \<and> m < e then parallel_for r body m e (parallel_for l body b m s)
      else body b e s)"

text \<open>
  The functor \<^verbatim>\<open>Evaluate\<close>, lines 65-94: \<open>Evaluate_op\<close> is \<^verbatim>\<open>operator()\<close> on a range, adding
  \<open>abs K\<close> to the running \<^verbatim>\<open>_Penalty\<close>; the splitting constructor starts a fresh functor
  with penalty \<open>0\<close> and \<^verbatim>\<open>join\<close> adds the partial sums.
\<close>

definition Evaluate_op :: "real list \<Rightarrow> nat \<Rightarrow> nat \<Rightarrow> real \<Rightarrow> real" where
  "Evaluate_op gaussCurvature begin end penalty =
     fold (\<lambda>ptId p. p + \<bar>gaussCurvature ! ptId\<bar>) [begin..<end] penalty"

fun parallel_reduce_Evaluate :: "splitting \<Rightarrow> real list \<Rightarrow> nat \<Rightarrow> nat \<Rightarrow> real \<Rightarrow> real" where
  "parallel_reduce_Evaluate Whole K b e penalty = Evaluate_op K b e penalty"
| "parallel_reduce_Evaluate (Cut m l r) K b e penalty =
     (if b < m \<and> m < e
      then parallel_reduce_Evaluate l K b m penalty + parallel_reduce_Evaluate r K m e 0
      else Evaluate_op K b e penalty)"

text \<open>\<^verbatim>\<open>GaussCurvatureConstraint::Evaluate\<close>, lines 265-272.\<close>

definition Evaluate :: "splitting \<Rightarrow> GaussCurvatureConstraint \<Rightarrow> real" where
  "Evaluate sp t =
     (if NumberOfPoints t = 0 then 0
      else parallel_reduce_Evaluate sp (Values (GaussCurvature t)) 0 (NumberOfPoints t) 0
             / real (NumberOfPoints t))"

text \<open>
  The functor \<^verbatim>\<open>EvaluateGradient\<close>, lines 98-151. \<open>force_magnitude\<close> is the value of \<open>m\<close>
  after lines 123-125; the two loops over the adjacent points are lines 131-137 and
  139-143, with \<open>f\<close> as accumulator.
\<close>

definition force_magnitude :: "real \<Rightarrow> real \<Rightarrow> real" where
  "force_magnitude K H =
     (let m = SShapedMembershipFunction \<bar>K\<bar> 0 0.2
      in if H < 0 then m * (1 - SShapedMembershipFunction (- H) 0 0.5)
         else m * SShapedMembershipFunction H 0 1)"

fun sum_outward_offsets :: "vec3 list \<Rightarrow> vec3 \<Rightarrow> vec3 \<Rightarrow> nat list \<Rightarrow> vec3 \<Rightarrow> vec3" where
  "sum_outward_offsets pts c n [] f = f"
| "sum_outward_offsets pts c n (adjPtId # rest) f =
     (let d = Subtract (pts ! adjPtId) c
      in sum_outward_offsets pts c n rest (if Dot d n > 0 then Add f d else f))"

fun sum_offsets :: "vec3 list \<Rightarrow> vec3 \<Rightarrow> nat list \<Rightarrow> vec3 \<Rightarrow> vec3" where
  "sum_offsets pts c [] f = f"
| "sum_offsets pts c (adjPtId # rest) f =
     (let d = Subtract (pts ! adjPtId) c in sum_offsets pts c rest (Add f d))"

definition spring_force :: "GaussCurvatureConstraint \<Rightarrow> nat \<Rightarrow> vec3" where
  "spring_force t ptId =
     (let adjPtIds = EdgeTable t ! ptId;
          numAdjPts = length adjPtIds;
          K = Values (GaussCurvature t) ! ptId;
          H = Values (MeanCurvature t) ! ptId;
          m = force_magnitude K H;
          c = Points t ! ptId;
          f = (if K < 0 then sum_outward_offsets (Points t) c (Normals t ! ptId) adjPtIds (0, 0, 0)
               else sum_offsets (Points t) c adjPtIds (0, 0, 0));
          f = MultiplyScalar f (1 / real numAdjPts);
          f = Normalize f
      in MultiplyScalar f (- m))"

definition is_passive :: "GaussCurvatureConstraint \<Rightarrow> nat \<Rightarrow> bool" where
  "is_passive t ptId = (case Status t of None \<Rightarrow> False | Some status \<Rightarrow> status ! ptId = 0)"

definition EvaluateGradient_body :: "GaussCurvatureConstraint \<Rightarrow> nat \<Rightarrow> vec3 list \<Rightarrow> vec3 list" where
  "EvaluateGradient_body t ptId g =
     (if is_passive t ptId then g
      else if length (EdgeTable t ! ptId) > 0 then g[ptId := spring_force t ptId]
      else g)"

definition EvaluateGradient_op :: "GaussCurvatureConstraint \<Rightarrow> nat \<Rightarrow> nat \<Rightarrow> vec3 list \<Rightarrow> vec3 list" where
  "EvaluateGradient_op t begin end g = fold (EvaluateGradient_body t) [begin..<end] g"

text \<open>
  \<^verbatim>\<open>memset(_Gradient, 0, _NumberOfPoints * sizeof(GradientType))\<close> followed by the
  \<^verbatim>\<open>parallel_for\<close>, lines 280-290: the per-point contributions of the term.
\<close>

definition contributions :: "splitting \<Rightarrow> GaussCurvatureConstraint \<Rightarrow> vec3 list" where
  "contributions sp t =
     parallel_for sp (EvaluateGradient_op t) 0 (NumberOfPoints t)
       (replicate (NumberOfPoints t) (0, 0, 0) @ drop (NumberOfPoints t) (TermGradient t))"

text \<open>
  Modelled from the spec: \<^verbatim>\<open>SurfaceConstraint::EvaluateGradient\<close> (the base class, not under
  src/), the additive accumulation step: it "adds weight \<times> stepScale \<times> (per-point
  contribution) into the caller-owned gradient buffer".
\<close>

definition SurfaceConstraint_EvaluateGradient ::
  "GaussCurvatureConstraint \<Rightarrow> real list \<Rightarrow> real \<Rightarrow> real \<Rightarrow> real list" where
  "SurfaceConstraint_EvaluateGradient t gradient step weight =
     fold (\<lambda>ptId g. set3 g ptId
             (Add (get3 g ptId) (MultiplyScalar (TermGradient t ! ptId) (weight * step))))
       [0..<NumberOfPoints t] gradient"

text \<open>
  \<^verbatim>\<open>GaussCurvatureConstraint::EvaluateGradient\<close>, lines 275-293, with the base class
  step as parameter \<open>base\<close>. The result is the term (its \<^verbatim>\<open>_Gradient\<close> rewritten) and the
  caller's buffer.
\<close>

definition EvaluateGradient ::
  "(GaussCurvatureConstraint \<Rightarrow> real list \<Rightarrow> real \<Rightarrow> real \<Rightarrow> real list) \<Rightarrow> splitting \<Rightarrow>
   GaussCurvatureConstraint \<Rightarrow> real list \<Rightarrow> real \<Rightarrow> real \<Rightarrow> GaussCurvatureConstraint \<times> real list" where
  "EvaluateGradient base sp t gradient step weight =
     (if NumberOfPoints t = 0 then (t, gradient)
      else let t' = t\<lparr>TermGradient := contributions sp t\<rparr>
           in (t', base t' gradient step (weight / real (NumberOfPoints t))))"

text \<open>
  The number of points with active status, in the spec's words ("activePointCount"); the
  code has no such quantity.
\<close>

definition activePointCount :: "GaussCurvatureConstraint \<Rightarrow> nat" where
  "activePointCount t = length (filter (\<lambda>ptId. \<not> is_passive t ptId) [0..<NumberOfPoints t])"

text \<open>
  The direction of the force in the spec's words: the sum of the offsets \<open>neighbor - c\<close>,
  over the neighbors on the outward side when \<open>K < 0\<close> and over all neighbors otherwise,
  divided by the neighbor count and normalized.
\<close>

definition vector_sum :: "vec3 list \<Rightarrow> vec3" where
  "vector_sum vs = (sum_list (map fst vs), sum_list (map (fst \<circ> snd) vs), sum_list (map (snd \<circ> snd) vs))"

definition spec_offset_sum :: "GaussCurvatureConstraint \<Rightarrow> nat \<Rightarrow> vec3" where
  "spec_offset_sum t p =
     (let c = Points t ! p;
          offsets = map (\<lambda>q. Subtract (Points t ! q) c) (EdgeTable t ! p)
      in vector_sum (if Values (GaussCurvature t) ! p < 0
                     then filter (\<lambda>d. Dot d (Normals t ! p) > 0) offsets else offsets))"

definition spec_direction :: "GaussCurvatureConstraint \<Rightarrow> nat \<Rightarrow> vec3" where
  "spec_direction t p =
     Normalize (MultiplyScalar (spec_offset_sum t p) (1 / real (length (EdgeTable t ! p))))"

subsection \<open>Update of the cached curvature fields\<close>

text \<open>
  The requested curvature types: the code keeps them as a bit mask of the enumeration
  constants \<^verbatim>\<open>SurfaceCurvature::Gauss\<close> and \<^verbatim>\<open>SurfaceCurvature::Mean\<close> (declared outside src/);
  the model keeps the set of requested types, \<^verbatim>\<open>|=\<close> is insertion and a non-zero \<^verbatim>\<open>&\<close>
  is membership.
\<close>

datatype curv_type = Gauss | Mean

text \<open>
  The collaborators of \<^verbatim>\<open>Update\<close>, as parameters: \<open>SurfaceCurvature_Run types t\<close> is the
  output of the curvature estimator on the surface of \<open>t\<close> (one array per type), and
  \<open>MeshSmoothing_Run n arrays t input\<close> is the output of the smoother after \<open>n\<close> iterations,
  smoothing the arrays named in \<open>arrays\<close> only.
\<close>

record collaborators =
  SurfaceCurvature_Run :: "curv_type set \<Rightarrow> GaussCurvatureConstraint \<Rightarrow> curv_type \<Rightarrow> real list"
  MeshSmoothing_Run ::
    "nat \<Rightarrow> curv_type set \<Rightarrow> GaussCurvatureConstraint \<Rightarrow> (curv_type \<Rightarrow> real list) \<Rightarrow> curv_type \<Rightarrow> real list"

text \<open>
  Modelled from the spec: \<^verbatim>\<open>vtkObject::Modified\<close> (VTK, not under src/): "recomputation always
  refreshes the timestamp to current": the array gets the next value of the modification
  clock.
\<close>

definition Modified_GaussCurvature :: "GaussCurvatureConstraint \<Rightarrow> GaussCurvatureConstraint" where
  "Modified_GaussCurvature t =
     t\<lparr>GaussCurvature := (GaussCurvature t)\<lparr>MTime := Suc (MTimeClock t)\<rparr>, MTimeClock := Suc (MTimeClock t)\<rparr>"

definition Modified_MeanCurvature :: "GaussCurvatureConstraint \<Rightarrow> GaussCurvatureConstraint" where
  "Modified_MeanCurvature t =
     t\<lparr>MeanCurvature := (MeanCurvature t)\<lparr>MTime := Suc (MTimeClock t)\<rparr>, MTimeClock := Suc (MTimeClock t)\<rparr>"

text \<open>
  \<^verbatim>\<open>GaussCurvatureConstraint::Update\<close>, lines 216-262. The call of the base class
  \<^verbatim>\<open>SurfaceConstraint::Update\<close> acts on members of the base class that are not part of the
  state modelled here.
\<close>

definition stale_types :: "GaussCurvatureConstraint \<Rightarrow> curv_type set" where
  "stale_types t =
     (if MTime (GaussCurvature t) < SurfaceMTime t then {Gauss} else {}) \<union>
     (if MTime (MeanCurvature t) < SurfaceMTime t then {Mean} else {})"

definition Update :: "collaborators \<Rightarrow> GaussCurvatureConstraint \<Rightarrow> GaussCurvatureConstraint" where
  "Update c t =
     (if NumberOfPoints t = 0 then t
      else let curv_types = stale_types t
           in if curv_types \<noteq> {} then
                let curv = SurfaceCurvature_Run c curv_types t;
                    outputPD = MeshSmoothing_Run c 2 curv_types t curv;
                    t1 = (if Gauss \<in> curv_types
                          then Modified_GaussCurvature
                                 (t\<lparr>GaussCurvature := (GaussCurvature t)\<lparr>Values := outputPD Gauss\<rparr>\<rparr>)
                          else t);
                    t2 = (if Mean \<in> curv_types
                          then Modified_MeanCurvature
                                 (t1\<lparr>MeanCurvature := (MeanCurvature t1)\<lparr>Values := outputPD Mean\<rparr>\<rparr>)
                          else t1)
                in t2
              else t)"

section \<open>Explicit Euler optimizer (EulerMethod.cc)\<close>

subsection \<open>Auxiliary functors\<close>

text \<open>
  \<^verbatim>\<open>ComputeDisplacements\<close>, lines 51-74: the constructor stores \<open>- dt / norm\<close> as
  \<^verbatim>\<open>_StepLength\<close>; \<^verbatim>\<open>operator()\<close> writes the three slots of every point of the range.
\<close>

definition ComputeDisplacements_StepLength :: "real \<Rightarrow> real \<Rightarrow> real" where
  "ComputeDisplacements_StepLength dt gradient_norm = - dt / gradient_norm"

definition ComputeDisplacements_op ::
  "real list \<Rightarrow> real \<Rightarrow> nat \<Rightarrow> nat \<Rightarrow> real list \<Rightarrow> real list" where
  "ComputeDisplacements_op gradient stepLength begin end dx =
     fold (\<lambda>ptId d. set3 d ptId (MultiplyScalar (get3 gradient ptId) stepLength)) [begin..<end] dx"

text \<open>
  \<^verbatim>\<open>ClampDisplacements\<close>, lines 78-101: the constructor stores \<open>max_dx * max_dx\<close> as
  \<^verbatim>\<open>_Maximum\<close>; \<open>clamp\<close> is the body of the loop on the vector of one point. Over the reals
  a rescaled vector has squared norm exactly \<^verbatim>\<open>_Maximum\<close>; in the code's doubles it may come
  out a rounding error above it, and no property below relies on its exact value.
\<close>

definition ClampDisplacements_Maximum :: "real \<Rightarrow> real" where
  "ClampDisplacements_Maximum max_dx = max_dx * max_dx"

fun clamp :: "real \<Rightarrow> vec3 \<Rightarrow> vec3" where
  "clamp maximum (d0, d1, d2) =
     (let norm = d0 * d0 + d1 * d1 + d2 * d2
      in if norm > maximum
         then (let norm = sqrt (maximum / norm) in (d0 * norm, d1 * norm, d2 * norm))
         else (d0, d1, d2))"

definition ClampDisplacements_op :: "real \<Rightarrow> nat \<Rightarrow> nat \<Rightarrow> real list \<Rightarrow> real list" where
  "ClampDisplacements_op maximum begin end dx =
     fold (\<lambda>ptId d. set3 d ptId (clamp maximum (get3 d ptId))) [begin..<end] dx"

subsection \<open>State of the optimizer and its collaborators\<close>

text \<open>
  The members inherited from \<^verbatim>\<open>LocalOptimizer\<close> that the code uses, and the members of
  \<^verbatim>\<open>EulerMethod\<close>. A buffer pointer is \<open>None\<close> when it is \<^verbatim>\<open>NULL\<close>.
\<close>

record LocalOptimizer =
  NumberOfSteps :: nat
  Epsilon :: real
  Delta :: real
  LastDelta :: real

record EulerMethod = LocalOptimizer +
  StepLength :: real
  NormalizeStepLength :: bool
  MaximumDisplacement :: real
  NormalDisplacement :: "real list option"
  Gradient :: "real list option"
  Displacement :: "real list option"
  NumberOfDOFs :: nat

text \<open>An energy value is a finite number or infinite (\<^verbatim>\<open>IsInf\<close>).\<close>

datatype energy = Finite real | Infinite

fun IsInf :: "energy \<Rightarrow> bool" where
  "IsInf Infinite = True"
| "IsInf (Finite v) = False"

text \<open>
  The deformable surface model and the stopping criteria, with state \<open>'m\<close>: the
  operations of \<^verbatim>\<open>DeformableSurfaceModel\<close> and \<^verbatim>\<open>LocalOptimizer::Converged\<close> (declared outside
  src/) that the optimizer calls. An operation that may change the model returns the new
  state.
\<close>

record 'm Model =
  Model_Remesh :: "'m \<Rightarrow> bool \<times> 'm"
  Model_Update :: "'m \<Rightarrow> 'm"
  Model_Value :: "'m \<Rightarrow> energy"
  Model_Gradient :: "'m \<Rightarrow> real list \<Rightarrow> real list"
  Model_GradientNorm :: "'m \<Rightarrow> real list \<Rightarrow> real"
  Model_Step :: "'m \<Rightarrow> real list \<Rightarrow> real \<times> 'm"
  Model_NumberOfPoints :: "'m \<Rightarrow> nat"
  Model_NumberOfDOFs :: "'m \<Rightarrow> nat"
  Model_IsSurfaceMesh :: "'m \<Rightarrow> bool"
  Model_SurfaceNormals :: "'m \<Rightarrow> vec3 list"
  Optimizer_Converged :: "nat \<Rightarrow> energy \<Rightarrow> energy \<Rightarrow> real list \<Rightarrow> 'm \<Rightarrow> bool \<times> 'm"

text \<open>
  Modelled from the spec: \<^verbatim>\<open>DeformableSurfaceModel::GradientNorm\<close> (not under src/): "the
  Euclidean norm of the whole Gradient vector".
\<close>

definition Euclidean_norm :: "real list \<Rightarrow> real" where
  "Euclidean_norm g = sqrt (sum_list (map (\<lambda>x. x * x) g))"

text \<open>
  Memory: a fault is an access through a null pointer or beyond the end of a buffer.
  \<open>buffer p\<close> is the memory behind \<open>p\<close> (none behind \<^verbatim>\<open>NULL\<close>), \<open>holds n p\<close> says that \<open>p\<close>
  points to at least \<open>n\<close> scalars (no scalar is accessed when \<open>n = 0\<close>).
\<close>

datatype fault = NullPointer | OutOfBounds

definition buffer :: "real list option \<Rightarrow> real list" where
  "buffer p = (case p of None \<Rightarrow> [] | Some b \<Rightarrow> b)"

definition access :: "nat \<Rightarrow> real list option \<Rightarrow> fault option" where
  "access n p =
     (if n = 0 then None
      else case p of None \<Rightarrow> Some NullPointer
           | Some b \<Rightarrow> if length b < n then Some OutOfBounds else None)"

text \<open>
  \<^verbatim>\<open>Allocate<double>(n)\<close> and \<^verbatim>\<open>Deallocate\<close> (mirtk/Memory.h): a fresh buffer of \<open>n\<close>
  scalars (its contents are unspecified in C++; the model fills it with zeros), and the
  release of a buffer, which resets the pointer to \<^verbatim>\<open>NULL\<close>.
\<close>

definition Allocate :: "nat \<Rightarrow> real list option" where
  "Allocate n = Some (replicate n 0)"

definition Deallocate :: "real list option \<Rightarrow> real list option" where
  "Deallocate p = None"

text \<open>\<^verbatim>\<open>memcpy(dst, src, n * sizeof(double))\<close>.\<close>

definition memcpy :: "real list option \<Rightarrow> real list option \<Rightarrow> nat \<Rightarrow> fault + real list option" where
  "memcpy dst src n =
     (case (dst, src) of
        (Some d, Some s) \<Rightarrow>
          if length d < n \<or> length s < n then Inl OutOfBounds
          else Inr (Some (take n s @ drop n d))
      | _ \<Rightarrow> Inl NullPointer)"

subsection \<open>Construction\<close>

text \<open>
  The constructor, lines 112-123, applied to the state \<open>base\<close> that the constructor of
  \<^verbatim>\<open>LocalOptimizer\<close> leaves; \<^verbatim>\<open>_NormalDisplacement\<close> is a null smart pointer.
\<close>

definition EulerMethod_new :: "LocalOptimizer \<Rightarrow> EulerMethod" where
  "EulerMethod_new base =
     LocalOptimizer.extend (base\<lparr>Epsilon := 1 / 10 ^ 9\<rparr>)
       (EulerMethod.fields 1 True 0 None None None 0)"

text \<open>\<^verbatim>\<open>EulerMethod::CopyAttributes\<close>, lines 126-146.\<close>

definition CopyAttributes :: "EulerMethod \<Rightarrow> EulerMethod \<Rightarrow> fault + EulerMethod" where
  "CopyAttributes this other =
     (let this = this\<lparr>StepLength := StepLength other,
                     NormalizeStepLength := NormalizeStepLength other,
                     MaximumDisplacement := MaximumDisplacement other,
                     NormalDisplacement := NormalDisplacement other,
                     NumberOfDOFs := NumberOfDOFs other\<rparr>;
          this = (if NumberOfDOFs this \<noteq> NumberOfDOFs other \<or> NumberOfDOFs other = 0
                  then (let this = this\<lparr>Gradient := Deallocate (Gradient this),
                                         Displacement := Deallocate (Displacement this)\<rparr>
                        in if NumberOfDOFs this > 0
                           then this\<lparr>Gradient := Allocate (NumberOfDOFs this),
                                     Displacement := Allocate (NumberOfDOFs this)\<rparr>
                           else this)
                  else this)
      in if NumberOfDOFs this > 0
         then (case memcpy (Gradient this) (Gradient other) (NumberOfDOFs this) of
                 Inl f \<Rightarrow> Inl f
               | Inr g \<Rightarrow>
                   (case memcpy (Displacement this) (Displacement other) (NumberOfDOFs this) of
                      Inl f \<Rightarrow> Inl f
                    | Inr d \<Rightarrow> Inr (this\<lparr>Gradient := g, Displacement := d\<rparr>)))
         else Inr this)"

text \<open>
  The copy constructor, lines 149-156: the base class is copied, both buffer pointers
  start as \<^verbatim>\<open>NULL\<close>, and the members that the initializer list leaves out have the
  values of \<open>uninitialized\<close> until \<^verbatim>\<open>CopyAttributes\<close> assigns them.
\<close>

definition EulerMethod_copy :: "EulerMethod \<Rightarrow> EulerMethod \<Rightarrow> fault + EulerMethod" where
  "EulerMethod_copy uninitialized other =
     CopyAttributes
       (uninitialized\<lparr>NumberOfSteps := NumberOfSteps other, Epsilon := Epsilon other,
                       Delta := Delta other, LastDelta := LastDelta other,
                       Gradient := None, Displacement := None\<rparr>)
       other"

text \<open>
  The assignment operator, lines 159-166, for \<open>this\<close> and \<open>other\<close> two distinct objects:
  the base class is assigned, then \<^verbatim>\<open>CopyAttributes\<close> runs.
\<close>

definition EulerMethod_assign :: "EulerMethod \<Rightarrow> EulerMethod \<Rightarrow> fault + EulerMethod" where
  "EulerMethod_assign this other =
     CopyAttributes
       (this\<lparr>NumberOfSteps := NumberOfSteps other, Epsilon := Epsilon other,
              Delta := Delta other, LastDelta := LastDelta other\<rparr>)
       other"

subsection \<open>Optimization\<close>

text \<open>\<^verbatim>\<open>EulerMethod::RemeshModel\<close>, lines 347-359.\<close>

definition RemeshModel :: "'m Model \<Rightarrow> EulerMethod \<Rightarrow> 'm \<Rightarrow> EulerMethod \<times> 'm" where
  "RemeshModel M e m =
     (let (changed, m) = Model_Remesh M m
      in if changed
         then (let m = Model_Update M m
               in if Model_NumberOfDOFs M m > NumberOfDOFs e
                  then (e\<lparr>Gradient := Allocate (Model_NumberOfDOFs M m),
                          Displacement := Allocate (Model_NumberOfDOFs M m),
                          NumberOfDOFs := Model_NumberOfDOFs M m\<rparr>, m)
                  else (e, m))
         else (e, m))"

text \<open>\<^verbatim>\<open>EulerMethod::GradientNorm\<close>, lines 362-375.\<close>

definition GradientNorm :: "'m Model \<Rightarrow> 'm \<Rightarrow> EulerMethod \<Rightarrow> real" where
  "GradientNorm M m e =
     (if NormalizeStepLength e
      then (let norm = Model_GradientNorm M m (buffer (Gradient e))
            in if norm > 0 then norm else 1)
      else 1 / real (Model_NumberOfPoints M m))"

text \<open>
  \<^verbatim>\<open>EulerMethod::TruncateDisplacement\<close>, lines 386-394: \<open>effective_maximum\<close> is \<open>max_dx\<close>
  after line 389 and \<open>clamp_pass\<close> the condition of line 390.
\<close>

definition effective_maximum :: "EulerMethod \<Rightarrow> real" where
  "effective_maximum e =
     (let max_dx = MaximumDisplacement e
      in if max_dx \<le> 0 then (if NormalizeStepLength e then StepLength e else 1) else max_dx)"

definition clamp_pass :: "bool \<Rightarrow> EulerMethod \<Rightarrow> bool" where
  "clamp_pass force e = (force \<or> \<not> NormalizeStepLength e \<or> effective_maximum e < StepLength e)"

definition TruncateDisplacement ::
  "splitting \<Rightarrow> 'm Model \<Rightarrow> 'm \<Rightarrow> bool \<Rightarrow> EulerMethod \<Rightarrow> fault + EulerMethod" where
  "TruncateDisplacement sp M m force e =
     (if clamp_pass force e
      then (case access (3 * Model_NumberOfPoints M m) (Displacement e) of
              Some f \<Rightarrow> Inl f
            | None \<Rightarrow>
                Inr (e\<lparr>Displacement :=
                         map_option
                           (parallel_for sp
                              (ClampDisplacements_op (ClampDisplacements_Maximum (effective_maximum e)))
                              0 (Model_NumberOfPoints M m))
                           (Displacement e)\<rparr>))
      else Inr e)"

text \<open>
  \<^verbatim>\<open>EulerMethod::UpdateDisplacement\<close>, lines 378-383; \<^verbatim>\<open>TruncateDisplacement\<close> is called
  with its default argument, \<open>force = false\<close>.
\<close>

definition UpdateDisplacement :: "splitting \<Rightarrow> 'm Model \<Rightarrow> 'm \<Rightarrow> EulerMethod \<Rightarrow> fault + EulerMethod" where
  "UpdateDisplacement sp M m e =
     (let stepLength = ComputeDisplacements_StepLength (StepLength e) (GradientNorm M m e)
      in case access (3 * Model_NumberOfPoints M m) (Gradient e) of
           Some f \<Rightarrow> Inl f
         | None \<Rightarrow>
             (case access (3 * Model_NumberOfPoints M m) (Displacement e) of
                Some f \<Rightarrow> Inl f
              | None \<Rightarrow>
                  TruncateDisplacement sp M m False
                    (e\<lparr>Displacement :=
                         map_option
                           (parallel_for sp
                              (ComputeDisplacements_op (buffer (Gradient e)) stepLength)
                              0 (Model_NumberOfPoints M m))
                           (Displacement e)\<rparr>)))"

text \<open>\<^verbatim>\<open>EulerMethod::UpdateNormalDisplacement\<close>, lines 397-409.\<close>

definition UpdateNormalDisplacement :: "'m Model \<Rightarrow> 'm \<Rightarrow> EulerMethod \<Rightarrow> fault + EulerMethod" where
  "UpdateNormalDisplacement M m e =
     (case NormalDisplacement e of
        None \<Rightarrow> Inr e
      | Some nd \<Rightarrow>
          if Model_IsSurfaceMesh M m
          then (case access (3 * Model_NumberOfPoints M m) (Displacement e) of
                  Some f \<Rightarrow> Inl f
                | None \<Rightarrow>
                    if length nd < Model_NumberOfPoints M m then Inl OutOfBounds
                    else Inr (e\<lparr>NormalDisplacement := Some
                           (fold (\<lambda>ptId a. a[ptId := a ! ptId
                                    + Dot (get3 (buffer (Displacement e)) ptId)
                                          (Model_SurfaceNormals M m ! ptId)])
                              [0..<Model_NumberOfPoints M m] nd)\<rparr>))
          else Inr e)"

text \<open>
  The loop of \<^verbatim>\<open>EulerMethod::Run\<close>, lines 299-335. The terminal states are named as in the
  spec: the \<^verbatim>\<open>break\<close> of line 316 is \<open>DegenerateStep\<close>, the \<^verbatim>\<open>break\<close> of line 331 is
  \<open>Converged\<close>, and \<open>step.Next()\<close> returning false is \<open>MaxIterationsReached\<close>. The broadcast
  events are notifications without effect on the state and are left out.

  \<open>Run_forces\<close> is the body up to the call of \<^verbatim>\<open>_Model->Step\<close> (lines 306-312),
  \<open>Run_iteration\<close> the whole body for iteration \<open>iter\<close>; it returns the terminal state when
  the loop is left.
\<close>

datatype terminal = Converged | MaxIterationsReached | DegenerateStep

definition Run_forces ::
  "splitting \<Rightarrow> 'm Model \<Rightarrow> nat \<Rightarrow> EulerMethod \<Rightarrow> 'm \<Rightarrow> fault + EulerMethod \<times> 'm" where
  "Run_forces sp M iter e m =
     (let (e, m) = (if iter > 1 then RemeshModel M e m else (e, m));
          e = e\<lparr>Gradient := map_option (Model_Gradient M m) (Gradient e)\<rparr>
      in case UpdateDisplacement sp M m e of
           Inl f \<Rightarrow> Inl f
         | Inr e \<Rightarrow> Inr (e, m))"

definition Run_iteration ::
  "splitting \<Rightarrow> 'm Model \<Rightarrow> nat \<Rightarrow> EulerMethod \<Rightarrow> 'm \<Rightarrow> energy \<Rightarrow>
   fault + terminal option \<times> EulerMethod \<times> 'm \<times> energy" where
  "Run_iteration sp M iter e m val =
     (case Run_forces sp M iter e m of
        Inl f \<Rightarrow> Inl f
      | Inr (e, m) \<Rightarrow>
          (let (delta, m) = Model_Step M m (buffer (Displacement e));
               e = e\<lparr>LastDelta := delta\<rparr>
           in if LastDelta e \<le> Delta e then Inr (Some DegenerateStep, e, m, val)
              else (let m = Model_Update M m
                    in case UpdateNormalDisplacement M m e of
                         Inl f \<Rightarrow> Inl f
                       | Inr e \<Rightarrow>
                           (let prev = val;
                                val = (if \<not> IsInf prev then Model_Value M m else val);
                                (converged, m) =
                                    Optimizer_Converged M iter prev val (buffer (Displacement e)) m
                            in if converged then Inr (Some Converged, e, m, val)
                               else Inr (None, e, m, val)))))"

text \<open>
  Modelled from the spec: the iteration counter \<^verbatim>\<open>Iteration step(0, _NumberOfSteps)\<close> (class
  declared outside src/): "iteration i = 1 \<dots> maxIterations"; \<open>step.Next()\<close> increments the
  counter and is false once it exceeds the bound \<open>n\<close> fixed at construction.
\<close>

function Run_loop ::
  "splitting \<Rightarrow> 'm Model \<Rightarrow> nat \<Rightarrow> nat \<Rightarrow> EulerMethod \<Rightarrow> 'm \<Rightarrow> energy \<Rightarrow>
   fault + terminal \<times> EulerMethod \<times> 'm \<times> energy" where
  "Run_loop sp M n iter e m val =
     (if n < Suc iter then Inr (MaxIterationsReached, e, m, val)
      else (case Run_iteration sp M (Suc iter) e m val of
              Inl f \<Rightarrow> Inl f
            | Inr (Some t, e', m', val') \<Rightarrow> Inr (t, e', m', val')
            | Inr (None, e', m', val') \<Rightarrow> Run_loop sp M n (Suc iter) e' m' val'))"
  by pat_completeness auto
termination
  by (relation "measure (\<lambda>(sp, M, n, iter, e, m, val). n - iter)") auto

section \<open>Example configurations\<close>

text \<open>
  A surface of two points joined by one edge, two units apart along the first axis, with
  the normal of point \<open>0\<close> pointing towards point \<open>1\<close>; the status and the curvature values
  are parameters.
\<close>

definition two_points ::
  "real list option \<Rightarrow> real list \<Rightarrow> real list \<Rightarrow> GaussCurvatureConstraint" where
  "two_points status K H =
     \<lparr>NumberOfPoints = 2, Points = [(0, 0, 0), (2, 0, 0)], Status = status,
      EdgeTable = [[1], [0]], Normals = [(1, 0, 0), (1, 0, 0)], SurfaceMTime = 0,
      GaussCurvature = \<lparr>Values = K, MTime = 0\<rparr>, MeanCurvature = \<lparr>Values = H, MTime = 0\<rparr>,
      TermGradient = [(0, 0, 0), (0, 0, 0)], MTimeClock = 0\<rparr>"

text \<open>
  Collaborators for the examples: the estimator returns fixed arrays, and one iteration
  of the smoother halves the arrays it is asked to smooth.
\<close>

definition example_collaborators :: collaborators where
  "example_collaborators =
     \<lparr>SurfaceCurvature_Run = (\<lambda>types t ty. if ty = Gauss then [1, 3] else [2, 4]),
      MeshSmoothing_Run = (\<lambda>n arrays t input ty.
         if ty \<in> arrays then map (\<lambda>x. x / 2 ^ n) (input ty) else input ty)\<rparr>"

text \<open>The two points after a change of the geometry: the Gauss curvature is stale, the mean curvature fresh.\<close>

definition stale_Gauss_fresh_Mean :: GaussCurvatureConstraint where
  "stale_Gauss_fresh_Mean =
     (two_points None [0, 0] [9, 9])
       \<lparr>SurfaceMTime := 5, MeanCurvature := \<lparr>Values = [9, 9], MTime = 6\<rparr>, MTimeClock := 7\<rparr>"

text \<open>
  A model of one point that records the calls that change it: the stepping operation
  reports the realized step \<open>delta\<close>, the stopping criteria answer \<open>conv\<close>, the gradient
  buffer is left as it is, and the gradient norm is the Euclidean norm.
\<close>

datatype call = Call_Remesh | Call_Update | Call_Step | Call_Converged

definition recording_Model :: "real \<Rightarrow> bool \<Rightarrow> call list Model" where
  "recording_Model delta conv =
     \<lparr>Model_Remesh = (\<lambda>m. (False, m @ [Call_Remesh])),
      Model_Update = (\<lambda>m. m @ [Call_Update]),
      Model_Value = (\<lambda>m. Finite 0),
      Model_Gradient = (\<lambda>m g. g),
      Model_GradientNorm = (\<lambda>m. Euclidean_norm),
      Model_Step = (\<lambda>m d. (delta, m @ [Call_Step])),
      Model_NumberOfPoints = (\<lambda>m. 1),
      Model_NumberOfDOFs = (\<lambda>m. 3),
      Model_IsSurfaceMesh = (\<lambda>m. True),
      Model_SurfaceNormals = (\<lambda>m. [(0, 0, 1)]),
      Optimizer_Converged = (\<lambda>iter prev val d m. (conv, m @ [Call_Converged]))\<rparr>"

text \<open>
  An optimizer as the constructor leaves it, on a base optimizer with one step and
  \<^verbatim>\<open>_Delta\<close> \<open>= 10\<^sup>-\<^sup>1\<^sup>2\<close>, with buffers for one point and the gradient \<open>(2, 0, 0)\<close>.
\<close>

definition one_point_optimizer :: EulerMethod where
  "one_point_optimizer =
     (EulerMethod_new \<lparr>NumberOfSteps = 1, Epsilon = 1 / 10 ^ 4, Delta = 1 / 10 ^ 12, LastDelta = 0\<rparr>)
       \<lparr>Gradient := Some [2, 0, 0], Displacement := Some [0, 0, 0], NumberOfDOFs := 3\<rparr>"

section \<open>Properties of the curvature regularization term\<close>

subsection \<open>The S-shaped membership function\<close>

lemma smf_mid_cont:
  fixes a b :: real
  assumes "a < b"
  shows "continuous_on UNIV (\<lambda>x. if x \<le> 0.5 * (a + b) then 2 * ((x - a) / (b - a)) * ((x - a) / (b - a))
           else 1 - 2 * ((x - b) / (b - a)) * ((x - b) / (b - a)))"
proof -
  have "continuous_on ({..0.5 * (a + b)} \<union> {0.5 * (a + b)..})
     (\<lambda>x. if x \<le> 0.5 * (a + b) then 2 * ((x - a) / (b - a)) * ((x - a) / (b - a))
           else 1 - 2 * ((x - b) / (b - a)) * ((x - b) / (b - a)))"
  proof (rule continuous_on_If)
    fix x :: real
    assume "x \<in> {0.5 * (a + b)..}" "x \<le> 0.5 * (a + b)"
    then have x: "x = (a + b) / 2" by simp
    have ba: "b - a \<noteq> 0" using assms by simp
    have 1: "(x - a) / (b - a) = 1 / 2" using ba by (simp add: x field_simps)
    have 2: "(x - b) / (b - a) = - (1 / 2)" using ba by (simp add: x field_simps)
    show "2 * ((x - a) / (b - a)) * ((x - a) / (b - a)) = 1 - 2 * ((x - b) / (b - a)) * ((x - b) / (b - a))"
      unfolding 1 2 by simp
  qed (use assms in \<open>auto intro!: continuous_intros\<close>)
  moreover have "{..0.5 * (a + b)} \<union> {0.5 * (a + b)..} = (UNIV :: real set)" by auto
  ultimately show ?thesis by simp
qed

lemma smf_continuous_on:
  fixes a b :: real
  assumes "a < b"
  shows "continuous_on UNIV (\<lambda>x. SShapedMembershipFunction x a b)"
proof -
  let ?h = "\<lambda>x. if x \<le> 0.5 * (a + b) then 2 * ((x - a) / (b - a)) * ((x - a) / (b - a))
           else 1 - 2 * ((x - b) / (b - a)) * ((x - b) / (b - a))"
  let ?g = "\<lambda>x. if x \<ge> b then 1 else ?h x"
  have h: "continuous_on UNIV ?h" by (rule smf_mid_cont [OF assms])
  have "continuous_on ({b..} \<union> {..b}) ?g"
  proof (rule continuous_on_If)
    fix x :: real
    assume "x \<in> {..b}" "b \<le> x"
    then have "x = b" by simp
    then show "1 = ?h x" using assms by simp
  next
    show "continuous_on {..b} ?h" using h by (rule continuous_on_subset) simp
  qed (auto intro!: continuous_intros)
  moreover have "{b..} \<union> {..b} = (UNIV :: real set)" by auto
  ultimately have g: "continuous_on UNIV ?g" by simp
  have "continuous_on ({..a} \<union> {a..}) (\<lambda>x. if x \<le> a then 0 else ?g x)"
  proof (rule continuous_on_If)
    fix x :: real
    assume "x \<in> {a..}" "x \<le> a"
    then have "x = a" by simp
    then show "0 = ?g x" using assms by simp
  next
    show "continuous_on {a..} ?g" using g by (rule continuous_on_subset) simp
  qed (auto intro!: continuous_intros)
  moreover have "{..a} \<union> {a..} = (UNIV :: real set)" by auto
  ultimately have c: "continuous_on UNIV (\<lambda>x. if x \<le> a then 0 else ?g x)" by simp
  have e: "(\<lambda>x. if x \<le> a then 0 else ?g x) = (\<lambda>x. SShapedMembershipFunction x a b)"
    by (rule ext) (simp add: SShapedMembershipFunction_def Let_def)
  show ?thesis using c unfolding e .
qed

lemma smf_isCont: "a < b \<Longrightarrow> isCont (\<lambda>x. SShapedMembershipFunction x a b) p"
  using smf_continuous_on [of a b] by (simp add: continuous_on_eq_continuous_at)

lemma smf_param:
  fixes a b x :: real
  assumes "a < b"
  shows "SShapedMembershipFunction x a b =
     (let s = (x - a) / (b - a) in
      if s \<le> 0 then 0 else if s \<ge> 1 then 1
      else if s \<le> 1 / 2 then 2 * s * s else 1 - 2 * (s - 1) * (s - 1))"
proof -
  have ba: "0 < b - a" using assms by simp
  have 1: "(x - a) / (b - a) \<le> 0 \<longleftrightarrow> x \<le> a"
    using ba by (simp add: divide_le_0_iff)
  have 2: "1 \<le> (x - a) / (b - a) \<longleftrightarrow> b \<le> x"
    using ba by (simp add: le_divide_eq)
  have 3: "(x - a) / (b - a) \<le> 1 / 2 \<longleftrightarrow> x \<le> 0.5 * (a + b)"
    using ba by (simp add: divide_le_eq)
  have 4: "(x - a) / (b - a) - 1 = (x - b) / (b - a)"
    using ba by (simp add: field_simps)
  show ?thesis
    unfolding SShapedMembershipFunction_def Let_def 1 2 3 4 by simp
qed

lemma ramp_mono:
  fixes s t :: real
  assumes "s \<le> t"
  shows "(if s \<le> 0 then 0 else if s \<ge> 1 then 1
          else if s \<le> 1 / 2 then 2 * s * s else 1 - 2 * (s - 1) * (s - 1))
       \<le> (if t \<le> 0 then 0 else if t \<ge> 1 then 1
          else if t \<le> 1 / 2 then 2 * t * t else 1 - 2 * (t - 1) * (t - 1))"
proof -
  have lo: "\<And>u :: real. 0 \<le> u \<Longrightarrow> u \<le> 1 / 2 \<Longrightarrow> 2 * u * u \<le> 1 / 2"
  proof -
    fix u :: real assume "0 \<le> u" "u \<le> 1 / 2"
    then have "u * u \<le> (1 / 2) * (1 / 2)" by (intro mult_mono) auto
    then show "2 * u * u \<le> 1 / 2" by simp
  qed
  have hi: "\<And>u :: real. 1 / 2 \<le> u \<Longrightarrow> u \<le> 1 \<Longrightarrow> 1 / 2 \<le> 1 - 2 * (u - 1) * (u - 1)"
  proof -
    fix u :: real assume "1 / 2 \<le> u" "u \<le> 1"
    then have "(1 - u) * (1 - u) \<le> (1 / 2) * (1 / 2)" by (intro mult_mono) auto
    then show "1 / 2 \<le> 1 - 2 * (u - 1) * (u - 1)" by (simp add: algebra_simps)
  qed
  have up: "\<And>u v :: real. 0 \<le> u \<Longrightarrow> u \<le> v \<Longrightarrow> 2 * u * u \<le> 2 * v * v"
    by (simp add: mult_mono)
  have dn: "\<And>u v :: real. u \<le> v \<Longrightarrow> v \<le> 1 \<Longrightarrow>
      1 - 2 * (u - 1) * (u - 1) \<le> 1 - 2 * (v - 1) * (v - 1)"
  proof -
    fix u v :: real assume "u \<le> v" "v \<le> 1"
    then have "(1 - v) * (1 - v) \<le> (1 - u) * (1 - u)" by (intro mult_mono) auto
    then show "1 - 2 * (u - 1) * (u - 1) \<le> 1 - 2 * (v - 1) * (v - 1)"
      by (simp add: algebra_simps)
  qed
  have nn: "\<And>u :: real. 0 \<le> 2 * u * u" by (simp add: mult.assoc)
  have le1: "\<And>u :: real. 1 - 2 * (u - 1) * (u - 1) \<le> 1"
  proof -
    fix u :: real
    have "0 \<le> (u - 1) * (u - 1)" by simp
    then show "1 - 2 * (u - 1) * (u - 1) \<le> 1" by (simp add: algebra_simps)
  qed
  consider "s \<le> 0" | "0 < s" "s \<le> 1 / 2" | "1 / 2 < s" "s < 1" | "1 \<le> s" by linarith
  then show ?thesis
  proof cases
    case 1
    consider "t \<le> 0" | "0 < t" "t \<le> 1 / 2" | "1 / 2 < t" "t < 1" | "1 \<le> t" by linarith
    then show ?thesis
    proof cases
      case 3 then show ?thesis using 1 hi [of t] by simp
    qed (use 1 nn in simp_all)
  next
    case 2
    consider "t \<le> 1 / 2" | "1 / 2 < t" "t < 1" | "1 \<le> t" by linarith
    then show ?thesis
    proof cases
      case 1 then show ?thesis using 2 assms up [of s t] by simp
    next
      case 2 then show ?thesis using \<open>0 < s\<close> \<open>s \<le> 1 / 2\<close> lo [of s] hi [of t] by simp
    next
      case 3 then show ?thesis using 2 lo [of s] by simp
    qed
  next
    case 3
    consider "t < 1" | "1 \<le> t" by linarith
    then show ?thesis
    proof cases
      case 1 then show ?thesis using 3 assms dn [of s t] by simp
    next
      case 2 then show ?thesis using 3 le1 [of s] by simp
    qed
  next
    case 4
    then show ?thesis using assms by simp
  qed
qed

lemma smf_mono:
  assumes "a < b" "x \<le> y"
  shows "SShapedMembershipFunction x a b \<le> SShapedMembershipFunction y a b"
proof -
  have "(x - a) / (b - a) \<le> (y - a) / (b - a)"
    using assms by (simp add: divide_right_mono)
  then show ?thesis
    unfolding smf_param [OF assms(1)] Let_def by (rule ramp_mono)
qed

lemma smf_ease_in:
  assumes "a < b" "a \<le> x" "x \<le> (a + b) / 2"
  shows "SShapedMembershipFunction x a b = 2 * ((x - a) / (b - a))\<^sup>2"
proof (cases "x = a")
  case True
  then show ?thesis by (simp add: SShapedMembershipFunction_def)
next
  case False
  then have "\<not> x \<le> a" "\<not> b \<le> x" using assms by auto
  then show ?thesis
    using assms by (simp add: SShapedMembershipFunction_def Let_def power2_eq_square)
qed

lemma smf_ease_out:
  assumes "a < b" "(a + b) / 2 \<le> x" "x \<le> b"
  shows "SShapedMembershipFunction x a b = 1 - 2 * ((x - b) / (b - a))\<^sup>2"
proof -
  have ba: "b - a \<noteq> 0" using assms by simp
  consider "x = b" | "x = (a + b) / 2" | "(a + b) / 2 < x" "x < b"
    using assms by linarith
  then show ?thesis
  proof cases
    case 1
    then show ?thesis using assms by (simp add: SShapedMembershipFunction_def)
  next
    case 2
    have 1: "(x - a) / (b - a) = 1 / 2" using ba by (simp add: 2 field_simps)
    have 3: "(x - b) / (b - a) = - (1 / 2)" using ba by (simp add: 2 field_simps)
    have "\<not> x \<le> a" "\<not> b \<le> x" "x \<le> 0.5 * (a + b)" using assms 2 by auto
    then have "SShapedMembershipFunction x a b = 2 * ((x - a) / (b - a)) * ((x - a) / (b - a))"
      by (simp add: SShapedMembershipFunction_def Let_def)
    then show ?thesis unfolding 1 3 by (simp add: power2_eq_square)
  next
    case 3
    then have "\<not> x \<le> a" "\<not> b \<le> x" "\<not> x \<le> 0.5 * (a + b)" using assms by auto
    then show ?thesis
      by (simp add: SShapedMembershipFunction_def Let_def power2_eq_square)
  qed
qed

text \<open>
  Claim C8. For all \<open>a < b\<close>, \<open>smf(x, a, b)\<close> is \<open>0\<close> for \<open>x \<le> a\<close>, \<open>1\<close> for \<open>x \<ge> b\<close>, the
  quadratic ease-in \<open>2 ((x - a) / (b - a))\<^sup>2\<close> on \<open>[a, (a + b) / 2]\<close> and the quadratic ease-out
  \<open>1 - 2 ((x - b) / (b - a))\<^sup>2\<close> on \<open>[(a + b) / 2, b]\<close>; it is continuous at \<open>a\<close> (value \<open>0\<close>), at
  the midpoint (value \<open>1 / 2\<close>) and at \<open>b\<close> (value \<open>1\<close>), and monotone non-decreasing on
  \<open>[a, b]\<close>.
\<close>

theorem SShapedMembershipFunction_ramp:
  assumes "a < b"
  shows "(\<forall>x. x \<le> a \<longrightarrow> SShapedMembershipFunction x a b = 0)
       \<and> (\<forall>x. b \<le> x \<longrightarrow> SShapedMembershipFunction x a b = 1)
       \<and> (\<forall>x. a \<le> x \<and> x \<le> (a + b) / 2 \<longrightarrow>
             SShapedMembershipFunction x a b = 2 * ((x - a) / (b - a))\<^sup>2)
       \<and> (\<forall>x. (a + b) / 2 \<le> x \<and> x \<le> b \<longrightarrow>
             SShapedMembershipFunction x a b = 1 - 2 * ((x - b) / (b - a))\<^sup>2)
       \<and> isCont (\<lambda>x. SShapedMembershipFunction x a b) a
       \<and> SShapedMembershipFunction a a b = 0
       \<and> isCont (\<lambda>x. SShapedMembershipFunction x a b) ((a + b) / 2)
       \<and> SShapedMembershipFunction ((a + b) / 2) a b = 1 / 2
       \<and> isCont (\<lambda>x. SShapedMembershipFunction x a b) b
       \<and> SShapedMembershipFunction b a b = 1
       \<and> (\<forall>x y. a \<le> x \<and> x \<le> y \<and> y \<le> b \<longrightarrow>
             SShapedMembershipFunction x a b \<le> SShapedMembershipFunction y a b)"
proof -
  have zero: "\<forall>x. x \<le> a \<longrightarrow> SShapedMembershipFunction x a b = 0"
    by (simp add: SShapedMembershipFunction_def)
  have one: "\<forall>x. b \<le> x \<longrightarrow> SShapedMembershipFunction x a b = 1"
    using assms by (simp add: SShapedMembershipFunction_def)
  have ein: "\<forall>x. a \<le> x \<and> x \<le> (a + b) / 2 \<longrightarrow>
      SShapedMembershipFunction x a b = 2 * ((x - a) / (b - a))\<^sup>2"
    using smf_ease_in [OF assms] by blast
  have eout: "\<forall>x. (a + b) / 2 \<le> x \<and> x \<le> b \<longrightarrow>
      SShapedMembershipFunction x a b = 1 - 2 * ((x - b) / (b - a))\<^sup>2"
    using smf_ease_out [OF assms] by blast
  have ba: "b - a \<noteq> 0" using assms by simp
  have half: "((a + b) / 2 - a) / (b - a) = 1 / 2" using ba by (simp add: field_simps)
  have "SShapedMembershipFunction ((a + b) / 2) a b = 2 * (((a + b) / 2 - a) / (b - a))\<^sup>2"
    by (rule smf_ease_in) (use assms in auto)
  then have mid: "SShapedMembershipFunction ((a + b) / 2) a b = 1 / 2"
    unfolding half by (simp add: power2_eq_square)
  have mono: "\<forall>x y. a \<le> x \<and> x \<le> y \<and> y \<le> b \<longrightarrow>
      SShapedMembershipFunction x a b \<le> SShapedMembershipFunction y a b"
    using smf_mono [OF assms] by blast
  show ?thesis
    using zero one ein eout mid mono smf_isCont [OF assms] by simp
qed

theorem SShapedMembershipFunction_ramp_witness:
  "(0 :: real) < 1
   \<and> SShapedMembershipFunction (1 / 4) 0 1 = 1 / 8
   \<and> SShapedMembershipFunction (3 / 4) 0 1 = 7 / 8
   \<and> SShapedMembershipFunction (1 / 2) 0 1 = 1 / 2
   \<and> isCont (\<lambda>x. SShapedMembershipFunction x 0 1) (1 / 2)
   \<and> SShapedMembershipFunction (1 / 4) 0 1 \<le> SShapedMembershipFunction (3 / 4) 0 1"
proof -
  have h: "(0 :: real) < 1" by simp
  note r = SShapedMembershipFunction_ramp [OF h]
  have c: "isCont (\<lambda>x. SShapedMembershipFunction x 0 1) ((0 + 1) / 2)"
    using r by blast
  have ein: "\<forall>x :: real. 0 \<le> x \<and> x \<le> (0 + 1) / 2 \<longrightarrow>
      SShapedMembershipFunction x 0 1 = 2 * ((x - 0) / (1 - 0))\<^sup>2"
    using r by blast
  have eout: "\<forall>x :: real. (0 + 1) / 2 \<le> x \<and> x \<le> 1 \<longrightarrow>
      SShapedMembershipFunction x 0 1 = 1 - 2 * ((x - 1) / (1 - 0))\<^sup>2"
    using r by blast
  have i: "SShapedMembershipFunction (1 / 4) 0 1 = 1 / 8"
    using ein [rule_format, of "1 / 4"] by (simp add: power2_eq_square)
  have o: "SShapedMembershipFunction (3 / 4) 0 1 = 7 / 8"
    using eout [rule_format, of "3 / 4"] by (simp add: power2_eq_square)
  have m: "SShapedMembershipFunction (1 / 2) 0 1 = 1 / 2"
    using ein [rule_format, of "1 / 2"] by (simp add: power2_eq_square)
  show ?thesis using c i o m by simp
qed

subsection \<open>Ranges and their splittings\<close>

lemma parallel_for_fold:
  assumes "\<And>b e s. body b e s = fold f [b..<e] s"
  shows "b \<le> e \<Longrightarrow> parallel_for sp body b e s = fold f [b..<e] s"
proof (induction sp arbitrary: b e s)
  case Whole
  show ?case by (simp add: assms)
next
  case (Cut m l r)
  show ?case
  proof (cases "b < m \<and> m < e")
    case True
    then have split: "[b..<e] = [b..<m] @ [m..<e]"
      using upt_add_eq_append [of b m "e - m"] by simp
    have "parallel_for (Cut m l r) body b e s
        = fold f [m..<e] (fold f [b..<m] s)"
      using True Cut.IH(1) [of b m s] Cut.IH(2) [of m e "fold f [b..<m] s"] by simp
    then show ?thesis by (simp add: split)
  next
    case False
    then show ?thesis by (auto simp: assms)
  qed
qed

lemma fold_add: "fold (\<lambda>i p. p + g i) xs (p :: real) = p + sum_list (map g xs)"
  by (induction xs arbitrary: p) (simp_all add: add.assoc)

lemma sum_list_abs_zero: "(\<forall>K \<in> set Ks. K = (0 :: real)) \<Longrightarrow> (\<Sum>K \<leftarrow> Ks. \<bar>K\<bar>) = 0"
  by (induction Ks) simp_all

lemma Evaluate_op_sum:
  "Evaluate_op K b e p = p + sum_list (map (\<lambda>i. \<bar>K ! i\<bar>) [b..<e])"
  by (simp add: Evaluate_op_def fold_add)

lemma parallel_reduce_Evaluate_sum:
  "b \<le> e \<Longrightarrow>
   parallel_reduce_Evaluate sp K b e p = p + sum_list (map (\<lambda>i. \<bar>K ! i\<bar>) [b..<e])"
proof (induction sp arbitrary: b e p)
  case Whole
  show ?case by (simp add: Evaluate_op_sum)
next
  case (Cut m l r)
  show ?case
  proof (cases "b < m \<and> m < e")
    case True
    then have split: "[b..<e] = [b..<m] @ [m..<e]"
      using upt_add_eq_append [of b m "e - m"] by simp
    show ?thesis
      using True Cut.IH(1) [of b m p] Cut.IH(2) [of m e 0] by (simp add: split)
  next
    case False
    then show ?thesis by (auto simp: Evaluate_op_sum)
  qed
qed

subsection \<open>The penalty\<close>

text \<open>
  Claim C7. For every point count \<open>N \<ge> 0\<close> (the Gauss curvature array holding one value
  per point) and every way the parallel reduction splits the range, \<open>Evaluate\<close> returns the
  sum of the absolute Gauss curvatures divided by the point count; it returns \<open>0\<close> when
  \<open>N = 0\<close>, and \<open>0\<close> on an all-zero curvature field.
\<close>

theorem Evaluate_mean_abs_curvature:
  assumes "length (Values (GaussCurvature t)) = NumberOfPoints t"
  shows "Evaluate sp t =
           (if NumberOfPoints t = 0 then 0
            else (\<Sum>K \<leftarrow> Values (GaussCurvature t). \<bar>K\<bar>) / real (NumberOfPoints t))
       \<and> (NumberOfPoints t = 0 \<longrightarrow> Evaluate sp t = 0)
       \<and> ((\<forall>K \<in> set (Values (GaussCurvature t)). K = 0) \<longrightarrow> Evaluate sp t = 0)"
proof -
  let ?K = "Values (GaussCurvature t)"
  have nth: "map (\<lambda>i. \<bar>?K ! i\<bar>) [0..<length ?K] = map abs ?K"
    by (rule nth_equalityI) simp_all
  have red: "parallel_reduce_Evaluate sp ?K 0 (NumberOfPoints t) 0 = (\<Sum>K \<leftarrow> ?K. \<bar>K\<bar>)"
    using parallel_reduce_Evaluate_sum [of 0 "NumberOfPoints t" sp ?K 0] nth
    unfolding assms [symmetric] by simp
  have eq: "Evaluate sp t =
      (if NumberOfPoints t = 0 then 0 else (\<Sum>K \<leftarrow> ?K. \<bar>K\<bar>) / real (NumberOfPoints t))"
    by (simp add: Evaluate_def red)
  have zero: "(\<forall>K \<in> set ?K. K = 0) \<longrightarrow> (\<Sum>K \<leftarrow> ?K. \<bar>K\<bar>) = 0"
    by (simp add: sum_list_abs_zero)
  show ?thesis using eq zero by simp
qed

theorem Evaluate_mean_abs_curvature_witness:
  "Evaluate (Cut 1 Whole Whole)
     \<lparr>NumberOfPoints = 2, Points = [], Status = None, EdgeTable = [], Normals = [],
      SurfaceMTime = 0, GaussCurvature = \<lparr>Values = [- 3, 1], MTime = 0\<rparr>,
      MeanCurvature = \<lparr>Values = [0, 0], MTime = 0\<rparr>, TermGradient = [], MTimeClock = 0\<rparr> = 2"
  using Evaluate_mean_abs_curvature [of
     "\<lparr>NumberOfPoints = 2, Points = [], Status = None, EdgeTable = [], Normals = [],
      SurfaceMTime = 0, GaussCurvature = \<lparr>Values = [- 3, 1], MTime = 0\<rparr>,
      MeanCurvature = \<lparr>Values = [0, 0], MTime = 0\<rparr>, TermGradient = [], MTimeClock = 0\<rparr>"
     "Cut 1 Whole Whole"]
  by simp

subsection \<open>The per-point force\<close>

lemma vector_sum_Nil: "vector_sum [] = (0, 0, 0)"
  by (simp add: vector_sum_def)

lemma vector_sum_Cons: "vector_sum (d # ds) = Add d (vector_sum ds)"
  by (cases d) (simp add: vector_sum_def)

lemma Add_assoc: "Add (Add a b) c = Add a (Add b c)"
  by (cases a, cases b, cases c) simp

lemma Add_zero: "Add a (0, 0, 0) = a" "Add (0, 0, 0) a = a"
  by (cases a, simp)+

lemma sum_offsets_vector_sum:
  "sum_offsets pts c adj f = Add f (vector_sum (map (\<lambda>q. Subtract (pts ! q) c) adj))"
  by (induction adj arbitrary: f)
     (simp_all add: vector_sum_Nil vector_sum_Cons Add_zero Add_assoc Let_def)

lemma sum_outward_offsets_vector_sum:
  "sum_outward_offsets pts c n adj f =
     Add f (vector_sum (filter (\<lambda>d. Dot d n > 0) (map (\<lambda>q. Subtract (pts ! q) c) adj)))"
  by (induction adj arbitrary: f)
     (simp_all add: vector_sum_Nil vector_sum_Cons Add_zero Add_assoc Let_def)

lemma spring_force_spec:
  "spring_force t p =
     MultiplyScalar (spec_direction t p)
       (- force_magnitude (Values (GaussCurvature t) ! p) (Values (MeanCurvature t) ! p))"
  by (simp add: spring_force_def spec_direction_def spec_offset_sum_def Let_def
        sum_offsets_vector_sum sum_outward_offsets_vector_sum Add_zero)

lemma length_fold_body: "length (fold (EvaluateGradient_body t) xs g) = length g"
  by (induction xs arbitrary: g) (simp_all add: EvaluateGradient_body_def)

lemma fold_body_nth:
  "p < length g \<Longrightarrow> distinct xs \<Longrightarrow>
   fold (EvaluateGradient_body t) xs g ! p =
     (if p \<in> set xs \<and> \<not> is_passive t p \<and> EdgeTable t ! p \<noteq> [] then spring_force t p
      else g ! p)"
proof (induction xs arbitrary: g)
  case Nil
  show ?case by simp
next
  case (Cons x xs)
  have len: "p < length (EvaluateGradient_body t x g)"
    using Cons.prems(1) by (simp add: EvaluateGradient_body_def)
  have step: "EvaluateGradient_body t x g ! p =
      (if p = x \<and> \<not> is_passive t p \<and> EdgeTable t ! p \<noteq> [] then spring_force t p else g ! p)"
    using Cons.prems(1) by (auto simp: EvaluateGradient_body_def)
  show ?case
    using Cons.IH [OF len] Cons.prems(2) step by auto
qed

lemma contributions_nth:
  assumes "p < NumberOfPoints t"
  shows "contributions sp t ! p =
     (if \<not> is_passive t p \<and> EdgeTable t ! p \<noteq> [] then spring_force t p else (0, 0, 0))"
proof -
  let ?g = "replicate (NumberOfPoints t) (0, 0, 0) @ drop (NumberOfPoints t) (TermGradient t)"
  have "contributions sp t = fold (EvaluateGradient_body t) [0..<NumberOfPoints t] ?g"
    unfolding contributions_def
    by (rule parallel_for_fold) (simp_all add: EvaluateGradient_op_def)
  moreover have "p < length ?g" using assms by simp
  moreover have "?g ! p = (0, 0, 0)" using assms by (simp add: nth_append)
  ultimately show ?thesis
    using assms by (simp add: fold_body_nth)
qed

lemma Norm_zero_iff: "Norm v = 0 \<longleftrightarrow> v = (0, 0, 0)"
proof (cases v)
  case (fields a b c)
  have "a * a + b * b + c * c = 0 \<longleftrightarrow> a = 0 \<and> b = 0 \<and> c = 0"
    using sum_squares_eq_zero_iff [of a b] sum_squares_eq_zero_iff [of "sqrt (a * a + b * b)" c]
    by (smt (verit) mult_nonneg_nonneg real_sqrt_eq_zero_cancel_iff real_sqrt_mult_self
        zero_le_square abs_of_nonneg add_nonneg_nonneg real_sqrt_ge_zero)
  then show ?thesis by (simp add: fields Norm_def)
qed

lemma Norm_Normalize: "v \<noteq> (0, 0, 0) \<Longrightarrow> Norm (Normalize v) = 1"
proof (cases v)
  case (fields a b c)
  assume nz: "v \<noteq> (0, 0, 0)"
  let ?s = "a * a + b * b + c * c"
  have n: "Norm v \<noteq> 0" using nz by (simp add: Norm_zero_iff)
  have pos: "0 < ?s"
    using n by (simp add: fields Norm_def) (smt (verit) zero_le_square add_nonneg_nonneg real_sqrt_zero)
  define r where "r = 1 / sqrt ?s"
  have rr: "r * r = 1 / ?s"
    using pos by (simp add: r_def)
  have "Normalize v = (a * r, b * r, c * r)"
    using n by (simp add: fields Normalize_def Let_def Norm_def r_def)
  then have "Dot (Normalize v) (Normalize v) = ?s * (r * r)"
    by (simp add: algebra_simps)
  also have "\<dots> = 1" using pos by (simp add: rr)
  finally show ?thesis by (simp add: Norm_def)
qed

lemma MultiplyScalar_zero: "MultiplyScalar (0, 0, 0) s = (0, 0, 0)"
  by simp

lemma MultiplyScalar_eq_zero: "s \<noteq> 0 \<Longrightarrow> MultiplyScalar v s = (0, 0, 0) \<longleftrightarrow> v = (0, 0, 0)"
  by (cases v) simp

lemma Normalize_zero: "Normalize (0, 0, 0) = (0, 0, 0)"
  by (simp add: Normalize_def Norm_def)

lemma EvaluateGradient_TermGradient_nth:
  assumes "p < NumberOfPoints t"
  shows "TermGradient (fst (EvaluateGradient base sp t gradient step weight)) ! p =
     (if \<not> is_passive t p \<and> EdgeTable t ! p \<noteq> []
      then MultiplyScalar (spec_direction t p)
             (- force_magnitude (Values (GaussCurvature t) ! p) (Values (MeanCurvature t) ! p))
      else (0, 0, 0))"
proof -
  have "NumberOfPoints t \<noteq> 0" using assms by simp
  then have "TermGradient (fst (EvaluateGradient base sp t gradient step weight)) = contributions sp t"
    by (simp add: EvaluateGradient_def Let_def)
  then show ?thesis
    using contributions_nth [OF assms, of sp] by (simp add: spring_force_spec)
qed

text \<open>
  Claim C1. After \<open>EvaluateGradient\<close>, the contribution of the term at a point \<open>p\<close> is: if \<open>p\<close>
  is active (status \<open>\<noteq> 0\<close>) and has at least one neighbor, \<open>- m \<times> f\<close>, where \<open>f\<close> is the sum of
  the offsets \<open>neighbor - p\<close> (over the neighbors whose offset has a positive dot product with
  the normal of \<open>p\<close> when \<open>K < 0\<close>, over all neighbors when \<open>K \<ge> 0\<close>), divided by the neighbor
  count and normalized to unit length, and zero when that sum is exactly zero; if \<open>p\<close> is
  passive or has no neighbor, the contribution is zero.
\<close>

theorem EvaluateGradient_contribution:
  assumes "p < NumberOfPoints t"
  shows "TermGradient (fst (EvaluateGradient base sp t gradient step weight)) ! p =
           (if \<not> is_passive t p \<and> EdgeTable t ! p \<noteq> []
            then MultiplyScalar (spec_direction t p)
                   (- force_magnitude (Values (GaussCurvature t) ! p) (Values (MeanCurvature t) ! p))
            else (0, 0, 0))
       \<and> (spec_offset_sum t p = (0, 0, 0) \<longrightarrow>
            TermGradient (fst (EvaluateGradient base sp t gradient step weight)) ! p = (0, 0, 0))
       \<and> (EdgeTable t ! p \<noteq> [] \<and> spec_offset_sum t p \<noteq> (0, 0, 0) \<longrightarrow>
            Norm (spec_direction t p) = 1)
       \<and> (is_passive t p \<longleftrightarrow> (\<exists>status. Status t = Some status \<and> status ! p = 0))"
proof -
  note nth = EvaluateGradient_TermGradient_nth [OF assms, of base sp gradient step weight]
  have zero: "spec_offset_sum t p = (0, 0, 0) \<longrightarrow>
      TermGradient (fst (EvaluateGradient base sp t gradient step weight)) ! p = (0, 0, 0)"
    using nth by (simp add: spec_direction_def Normalize_zero)
  have unit: "EdgeTable t ! p \<noteq> [] \<and> spec_offset_sum t p \<noteq> (0, 0, 0) \<longrightarrow>
      Norm (spec_direction t p) = 1"
  proof
    assume a: "EdgeTable t ! p \<noteq> [] \<and> spec_offset_sum t p \<noteq> (0, 0, 0)"
    then have "1 / real (length (EdgeTable t ! p)) \<noteq> 0" by simp
    then have "MultiplyScalar (spec_offset_sum t p) (1 / real (length (EdgeTable t ! p))) \<noteq> (0, 0, 0)"
      using a MultiplyScalar_eq_zero by blast
    then show "Norm (spec_direction t p) = 1"
      unfolding spec_direction_def by (rule Norm_Normalize)
  qed
  have pas: "is_passive t p \<longleftrightarrow> (\<exists>status. Status t = Some status \<and> status ! p = 0)"
    by (simp add: is_passive_def split: option.splits)
  show ?thesis using nth zero unit pas by blast
qed

theorem EvaluateGradient_contribution_witness:
  "(0 :: nat) < NumberOfPoints (two_points (Some [1, 0]) [1, 1] [1, 1])
   \<and> TermGradient (fst (EvaluateGradient SurfaceConstraint_EvaluateGradient Whole
        (two_points (Some [1, 0]) [1, 1] [1, 1]) [0, 0, 0, 0, 0, 0] 1 1)) ! 0 = (- 1, 0, 0)"
proof -
  let ?t = "two_points (Some [1, 0]) [1, 1] [1, 1]"
  have h: "0 < NumberOfPoints ?t" by (simp add: two_points_def)
  have d: "spec_direction ?t 0 = (1, 0, 0)"
    by (simp add: spec_direction_def spec_offset_sum_def two_points_def vector_sum_def
          Normalize_def Norm_def)
  have m: "force_magnitude 1 1 = 1"
    by (simp add: force_magnitude_def SShapedMembershipFunction_def)
  have a: "\<not> is_passive ?t 0 \<and> EdgeTable ?t ! 0 \<noteq> []"
    by (simp add: is_passive_def two_points_def)
  have v: "Values (GaussCurvature ?t) ! 0 = 1" "Values (MeanCurvature ?t) ! 0 = 1"
    by (simp_all add: two_points_def)
  show ?thesis
    using EvaluateGradient_contribution
      [OF h, of SurfaceConstraint_EvaluateGradient Whole "[0, 0, 0, 0, 0, 0]" 1 1] h a
    by (simp add: d m v)
qed

text \<open>
  Claim C2. For every active point with at least one neighbor, the magnitude \<open>m\<close> used by
  \<open>EvaluateGradient\<close> is \<open>smf(|K|, 0, 0.2)\<close> times \<open>1 - smf(- H, 0, 0.5)\<close> when \<open>H < 0\<close> and times
  \<open>smf(H, 0, 1)\<close> when \<open>H \<ge> 0\<close>. For a point with exactly one neighbor, \<open>K = - 0.3\<close> and
  \<open>H = - 0.2\<close>, \<open>m\<close> is the constant \<open>smf(0.3, 0, 0.2) \<times> (1 - smf(0.2, 0, 0.5)) = 17 / 25\<close>, and the
  contribution is \<open>- m \<times> normalize(neighbor - point)\<close> when the offset of the neighbor has a
  positive dot product with the normal.
\<close>

theorem EvaluateGradient_magnitude:
  assumes "p < NumberOfPoints t" and "\<not> is_passive t p" and "EdgeTable t ! p \<noteq> []"
  shows "(let K = Values (GaussCurvature t) ! p; H = Values (MeanCurvature t) ! p;
              m = SShapedMembershipFunction \<bar>K\<bar> 0 0.2 *
                  (if H < 0 then 1 - SShapedMembershipFunction (- H) 0 0.5
                   else SShapedMembershipFunction H 0 1)
          in TermGradient (fst (EvaluateGradient base sp t gradient step weight)) ! p =
               MultiplyScalar (spec_direction t p) (- m))
       \<and> (EdgeTable t ! p = [q] \<and> Values (GaussCurvature t) ! p = - 0.3
            \<and> Values (MeanCurvature t) ! p = - 0.2
            \<and> Dot (Subtract (Points t ! q) (Points t ! p)) (Normals t ! p) > 0 \<longrightarrow>
          force_magnitude (- 0.3) (- 0.2)
            = SShapedMembershipFunction 0.3 0 0.2 * (1 - SShapedMembershipFunction 0.2 0 0.5)
          \<and> SShapedMembershipFunction 0.3 0 0.2 * (1 - SShapedMembershipFunction 0.2 0 0.5) = 17 / 25
          \<and> TermGradient (fst (EvaluateGradient base sp t gradient step weight)) ! p =
              MultiplyScalar (Normalize (Subtract (Points t ! q) (Points t ! p)))
                (- (SShapedMembershipFunction 0.3 0 0.2 * (1 - SShapedMembershipFunction 0.2 0 0.5))))"
proof -
  note nth = EvaluateGradient_TermGradient_nth [OF assms(1), of base sp gradient step weight]
  have general: "(let K = Values (GaussCurvature t) ! p; H = Values (MeanCurvature t) ! p;
              m = SShapedMembershipFunction \<bar>K\<bar> 0 0.2 *
                  (if H < 0 then 1 - SShapedMembershipFunction (- H) 0 0.5
                   else SShapedMembershipFunction H 0 1)
          in TermGradient (fst (EvaluateGradient base sp t gradient step weight)) ! p =
               MultiplyScalar (spec_direction t p) (- m))"
    using nth assms(2,3) by (simp add: force_magnitude_def Let_def)
  have m: "force_magnitude (- 0.3) (- 0.2)
      = SShapedMembershipFunction 0.3 0 0.2 * (1 - SShapedMembershipFunction 0.2 0 0.5)"
    by (simp add: force_magnitude_def)
  have c: "SShapedMembershipFunction 0.3 0 0.2 * (1 - SShapedMembershipFunction 0.2 0 0.5) = 17 / 25"
    by (simp add: SShapedMembershipFunction_def Let_def)
  have scenario: "TermGradient (fst (EvaluateGradient base sp t gradient step weight)) ! p =
      MultiplyScalar (Normalize (Subtract (Points t ! q) (Points t ! p)))
        (- (SShapedMembershipFunction 0.3 0 0.2 * (1 - SShapedMembershipFunction 0.2 0 0.5)))"
    if s: "EdgeTable t ! p = [q]" "Values (GaussCurvature t) ! p = - 0.3"
      "Values (MeanCurvature t) ! p = - 0.2"
      "Dot (Subtract (Points t ! q) (Points t ! p)) (Normals t ! p) > 0"
  proof -
    have "spec_offset_sum t p = Subtract (Points t ! q) (Points t ! p)"
      using s by (simp add: spec_offset_sum_def vector_sum_Cons vector_sum_Nil Add_zero)
    moreover have "MultiplyScalar v 1 = v" for v by (cases v) simp
    ultimately have "spec_direction t p = Normalize (Subtract (Points t ! q) (Points t ! p))"
      using s(1) by (simp add: spec_direction_def)
    then show ?thesis
      using nth assms(2,3) s(2,3) m by simp
  qed
  show ?thesis using general m c scenario by blast
qed

theorem EvaluateGradient_magnitude_witness:
  "(0 :: nat) < NumberOfPoints (two_points None [- 0.3, 0] [- 0.2, 0])
   \<and> \<not> is_passive (two_points None [- 0.3, 0] [- 0.2, 0]) 0
   \<and> EdgeTable (two_points None [- 0.3, 0] [- 0.2, 0]) ! 0 = [1]
   \<and> TermGradient (fst (EvaluateGradient SurfaceConstraint_EvaluateGradient Whole
        (two_points None [- 0.3, 0] [- 0.2, 0]) [0, 0, 0, 0, 0, 0] 1 1)) ! 0 = (- (17 / 25), 0, 0)"
proof -
  let ?t = "two_points None [- 0.3, 0] [- 0.2, 0]"
  have h: "0 < NumberOfPoints ?t" "\<not> is_passive ?t 0" "EdgeTable ?t ! 0 \<noteq> []"
    by (simp_all add: two_points_def is_passive_def)
  have s: "EdgeTable ?t ! 0 = [1] \<and> Values (GaussCurvature ?t) ! 0 = - 0.3
      \<and> Values (MeanCurvature ?t) ! 0 = - 0.2
      \<and> Dot (Subtract (Points ?t ! 1) (Points ?t ! 0)) (Normals ?t ! 0) > 0"
    by (simp add: two_points_def)
  have n: "Normalize (Subtract (Points ?t ! 1) (Points ?t ! 0)) = (1, 0, 0)"
    by (simp add: two_points_def Normalize_def Norm_def)
  note r = EvaluateGradient_magnitude
      [OF h, of SurfaceConstraint_EvaluateGradient Whole "[0, 0, 0, 0, 0, 0]" 1 1 1,
       THEN conjunct2, THEN mp, OF s]
  have c: "SShapedMembershipFunction 0.3 0 0.2 * (1 - SShapedMembershipFunction 0.2 0 0.5) = 17 / 25"
    using r by (rule conjunct2 [THEN conjunct1])
  have g: "TermGradient (fst (EvaluateGradient SurfaceConstraint_EvaluateGradient Whole ?t
           [0, 0, 0, 0, 0, 0] 1 1)) ! 0 =
         MultiplyScalar (Normalize (Subtract (Points ?t ! 1) (Points ?t ! 0)))
           (- (SShapedMembershipFunction 0.3 0 0.2 * (1 - SShapedMembershipFunction 0.2 0 0.5)))"
    using r by (rule conjunct2 [THEN conjunct2])
  have "TermGradient (fst (EvaluateGradient SurfaceConstraint_EvaluateGradient Whole ?t
           [0, 0, 0, 0, 0, 0] 1 1)) ! 0 = (- (17 / 25), 0, 0)"
    unfolding g n c by simp
  then show ?thesis using h(1,2) s by simp
qed

subsection \<open>Flat buffers of point vectors\<close>

lemma length_set3: "length (set3 d i v) = length d"
  by (cases v) simp

lemma get3_set3_same: "3 * i + 2 < length d \<Longrightarrow> get3 (set3 d i v) i = v"
  by (cases v) (simp add: get3_def)

lemma get3_set3_other: "i \<noteq> j \<Longrightarrow> get3 (set3 d i v) j = get3 d j"
  by (cases v) (auto simp: get3_def)

lemma nth_set3_other: "k div 3 \<noteq> i \<Longrightarrow> set3 d i v ! k = d ! k"
  by (cases v) auto

lemma length_fold_set3:
  "length (fold (\<lambda>i d. set3 d i (F i d)) xs d) = length d"
  by (induction xs arbitrary: d) (simp_all add: length_set3)

lemma fold_set3_get3:
  assumes "distinct xs" and "\<forall>i \<in> set xs. 3 * i + 2 < length d"
  shows "get3 (fold (\<lambda>i d. set3 d i (F i (get3 d i))) xs d) p =
           (if p \<in> set xs then F p (get3 d p) else get3 d p)"
  using assms
proof (induction xs arbitrary: d)
  case Nil
  show ?case by simp
next
  case (Cons x xs)
  let ?d = "set3 d x (F x (get3 d x))"
  have IH: "get3 (fold (\<lambda>i d. set3 d i (F i (get3 d i))) xs ?d) p =
      (if p \<in> set xs then F p (get3 ?d p) else get3 ?d p)"
    using Cons.prems by (intro Cons.IH) (simp_all add: length_set3)
  show ?case
  proof (cases "p = x")
    case True
    then have "p \<notin> set xs" using Cons.prems(1) by simp
    then show ?thesis using IH True Cons.prems(2) by (simp add: get3_set3_same)
  next
    case False
    then have "get3 ?d p = get3 d p" by (simp add: get3_set3_other)
    then show ?thesis using IH False by simp
  qed
qed

lemma fold_set3_nth_other:
  "k div 3 \<notin> set xs \<Longrightarrow> fold (\<lambda>i d. set3 d i (F i d)) xs d ! k = d ! k"
  by (induction xs arbitrary: d) (simp_all add: nth_set3_other)

lemma fold_set3_range:
  assumes "3 * e \<le> length d"
  shows "get3 (fold (\<lambda>i d. set3 d i (F i (get3 d i))) [b..<e] d) p =
           (if b \<le> p \<and> p < e then F p (get3 d p) else get3 d p)"
  using fold_set3_get3 [of "[b..<e]" d F p] assms by auto

subsection \<open>Accumulation into the caller's buffer\<close>

lemma SurfaceConstraint_EvaluateGradient_get3:
  assumes "3 * NumberOfPoints t \<le> length gradient"
  shows "get3 (SurfaceConstraint_EvaluateGradient t gradient step weight) p =
     (if p < NumberOfPoints t
      then Add (get3 gradient p) (MultiplyScalar (TermGradient t ! p) (weight * step))
      else get3 gradient p)"
  unfolding SurfaceConstraint_EvaluateGradient_def
  using fold_set3_range [OF assms, of "\<lambda>p v. Add v (MultiplyScalar (TermGradient t ! p) (weight * step))" 0 p]
  by simp

lemma two_points_contributions:
  "contributions Whole (two_points (Some [1, 0]) [1, 1] [1, 1]) = [(- 1, 0, 0), (0, 0, 0)]"
proof -
  let ?t = "two_points (Some [1, 0]) [1, 1] [1, 1]"
  have n: "NumberOfPoints ?t = 2" by (simp add: two_points_def)
  have len: "length (contributions Whole ?t) = 2"
    by (simp add: contributions_def EvaluateGradient_op_def length_fold_body n)
       (simp add: two_points_def)
  have d: "spec_direction ?t 0 = (1, 0, 0)"
    by (simp add: spec_direction_def spec_offset_sum_def two_points_def vector_sum_def
          Normalize_def Norm_def)
  have m: "force_magnitude 1 1 = 1"
    by (simp add: force_magnitude_def SShapedMembershipFunction_def)
  have a: "\<not> is_passive ?t 0 \<and> EdgeTable ?t ! 0 \<noteq> []" "is_passive ?t 1"
    by (simp_all add: is_passive_def two_points_def)
  have v: "Values (GaussCurvature ?t) ! 0 = 1" "Values (MeanCurvature ?t) ! 0 = 1"
    by (simp_all add: two_points_def)
  have "contributions Whole ?t ! 0 = spring_force ?t 0"
    using contributions_nth [of 0 ?t Whole] n a(1) by simp
  then have 0: "contributions Whole ?t ! 0 = (- 1, 0, 0)"
    by (simp add: spring_force_spec v d m)
  have 1: "contributions Whole ?t ! 1 = (0, 0, 0)"
    using contributions_nth [of 1 ?t Whole] n a(2) by simp
  show ?thesis
    using len 0 1 by (intro nth_equalityI) (auto simp: less_Suc_eq numeral_2_eq_2)
qed

lemma EvaluateGradient_base_get3:
  assumes "3 * NumberOfPoints t \<le> length gradient" and "p < NumberOfPoints t"
  shows "get3 (snd (EvaluateGradient SurfaceConstraint_EvaluateGradient sp t gradient step weight)) p =
     Add (get3 gradient p)
       (MultiplyScalar (contributions sp t ! p) (weight / real (NumberOfPoints t) * step))"
proof -
  let ?t = "t\<lparr>TermGradient := contributions sp t\<rparr>"
  have n: "NumberOfPoints t \<noteq> 0" using assms(2) by simp
  have "3 * NumberOfPoints ?t \<le> length gradient" using assms(1) by simp
  from SurfaceConstraint_EvaluateGradient_get3 [OF this, of step "weight / real (NumberOfPoints t)" p]
  show ?thesis using n assms(2) by (simp add: EvaluateGradient_def Let_def)
qed

lemma EvaluateGradient_base_beyond:
  assumes "3 * NumberOfPoints t \<le> k"
  shows "snd (EvaluateGradient SurfaceConstraint_EvaluateGradient sp t gradient step weight) ! k =
     gradient ! k"
proof -
  have "k div 3 \<notin> set [0..<NumberOfPoints t]" using assms by auto
  then show ?thesis
    by (simp add: EvaluateGradient_def Let_def SurfaceConstraint_EvaluateGradient_def
          fold_set3_nth_other)
qed

lemma EvaluateGradient_base_length:
  "length (snd (EvaluateGradient SurfaceConstraint_EvaluateGradient sp t gradient step weight)) =
     length gradient"
  by (simp add: EvaluateGradient_def Let_def SurfaceConstraint_EvaluateGradient_def
        length_fold_set3)

text \<open>
  Claim C9, as stated, fails: the scale forwarded to the base class is \<open>weight\<close> divided by
  the number of all points, not by the number of active points. On two points of which
  one is passive, with weight \<open>1\<close>, a base step that returns the scale it is given returns
  \<open>1 / 2\<close>; with the additive base step the slot of the active point receives \<open>- 1 / 2\<close>,
  whereas the scale \<open>weight / activePointCount\<close> would give \<open>- 1\<close>.
\<close>

theorem EvaluateGradient_active_count_counterexample:
  "NumberOfPoints (two_points (Some [1, 0]) [1, 1] [1, 1]) = 2
   \<and> activePointCount (two_points (Some [1, 0]) [1, 1] [1, 1]) = 1
   \<and> snd (EvaluateGradient (\<lambda>t gradient step weight. [weight]) Whole
        (two_points (Some [1, 0]) [1, 1] [1, 1]) [0, 0, 0, 0, 0, 0] 1 1) = [1 / 2]
   \<and> get3 (snd (EvaluateGradient SurfaceConstraint_EvaluateGradient Whole
        (two_points (Some [1, 0]) [1, 1] [1, 1]) [0, 0, 0, 0, 0, 0] 1 1)) 0 = (- (1 / 2), 0, 0)
   \<and> get3 (SurfaceConstraint_EvaluateGradient
        (fst (EvaluateGradient SurfaceConstraint_EvaluateGradient Whole
          (two_points (Some [1, 0]) [1, 1] [1, 1]) [0, 0, 0, 0, 0, 0] 1 1))
        [0, 0, 0, 0, 0, 0] 1
        (1 / real (activePointCount (two_points (Some [1, 0]) [1, 1] [1, 1])))) 0 = (- 1, 0, 0)"
proof -
  let ?t = "two_points (Some [1, 0]) [1, 1] [1, 1]"
  let ?g = "[0, 0, 0, 0, 0, 0] :: real list"
  have n: "NumberOfPoints ?t = 2" by (simp add: two_points_def)
  have a: "activePointCount ?t = 1"
    by (simp add: activePointCount_def n numeral_2_eq_2) (simp add: is_passive_def two_points_def)
  have 1: "get3 (snd (EvaluateGradient SurfaceConstraint_EvaluateGradient Whole ?t ?g 1 1)) 0
      = (- (1 / 2), 0, 0)"
    using EvaluateGradient_base_get3 [of ?t ?g 0 Whole 1 1]
    by (simp add: n two_points_contributions get3_def)
  let ?t' = "fst (EvaluateGradient SurfaceConstraint_EvaluateGradient Whole ?t ?g 1 1)"
  have t': "NumberOfPoints ?t' = 2" "TermGradient ?t' = [(- 1, 0, 0), (0, 0, 0)]"
    by (simp_all add: EvaluateGradient_def Let_def n two_points_contributions)
  have 2: "get3 (SurfaceConstraint_EvaluateGradient ?t' ?g 1 (1 / real (activePointCount ?t))) 0
      = (- 1, 0, 0)"
    using SurfaceConstraint_EvaluateGradient_get3 [of ?t' ?g 1 "1 / real (activePointCount ?t)" 0]
    by (simp add: t' a get3_def)
  have 0: "snd (EvaluateGradient (\<lambda>t gradient step weight. [weight]) Whole ?t ?g 1 1) = [1 / 2]"
    by (simp add: EvaluateGradient_def n)
  show ?thesis using n a 0 1 2 by simp
qed

text \<open>
  Claim C9, amended. After computing its per-point contributions, \<open>EvaluateGradient\<close> forwards
  its buffer to the base accumulation step with scale \<open>weight / NumberOfPoints\<close>, the number
  of all points of the surface, active or passive, which is the normalization of \<open>Evaluate\<close>.
  With the additive base step of the spec, the slots of every point receive
  \<open>weight / NumberOfPoints \<times> step \<times> contribution\<close> on top of their previous value; the slots of
  a passive or neighborless point and all slots beyond the points of the term keep their
  value, and the buffer keeps its length.
\<close>

theorem EvaluateGradient_scale:
  assumes "3 * NumberOfPoints t \<le> length gradient"
  shows "EvaluateGradient base sp t gradient step weight =
           (if NumberOfPoints t = 0 then (t, gradient)
            else (t\<lparr>TermGradient := contributions sp t\<rparr>,
                  base (t\<lparr>TermGradient := contributions sp t\<rparr>) gradient step
                    (weight / real (NumberOfPoints t))))
       \<and> (let r = snd (EvaluateGradient SurfaceConstraint_EvaluateGradient sp t gradient step weight)
          in length r = length gradient
           \<and> (\<forall>p. p < NumberOfPoints t \<longrightarrow>
                 get3 r p = Add (get3 gradient p)
                   (MultiplyScalar (contributions sp t ! p) (weight / real (NumberOfPoints t) * step)))
           \<and> (\<forall>p. p < NumberOfPoints t \<and> (is_passive t p \<or> EdgeTable t ! p = []) \<longrightarrow>
                 get3 r p = get3 gradient p)
           \<and> (\<forall>k. 3 * NumberOfPoints t \<le> k \<longrightarrow> r ! k = gradient ! k))"
proof -
  have fwd: "EvaluateGradient base sp t gradient step weight =
           (if NumberOfPoints t = 0 then (t, gradient)
            else (t\<lparr>TermGradient := contributions sp t\<rparr>,
                  base (t\<lparr>TermGradient := contributions sp t\<rparr>) gradient step
                    (weight / real (NumberOfPoints t))))"
    by (simp add: EvaluateGradient_def Let_def)
  let ?r = "snd (EvaluateGradient SurfaceConstraint_EvaluateGradient sp t gradient step weight)"
  have add: "\<forall>p. p < NumberOfPoints t \<longrightarrow>
      get3 ?r p = Add (get3 gradient p)
        (MultiplyScalar (contributions sp t ! p) (weight / real (NumberOfPoints t) * step))"
    using EvaluateGradient_base_get3 [OF assms] by blast
  have keep: "\<forall>p. p < NumberOfPoints t \<and> (is_passive t p \<or> EdgeTable t ! p = []) \<longrightarrow>
      get3 ?r p = get3 gradient p"
  proof (intro allI impI)
    fix p assume p: "p < NumberOfPoints t \<and> (is_passive t p \<or> EdgeTable t ! p = [])"
    then have "contributions sp t ! p = (0, 0, 0)"
      using contributions_nth [of p t sp] by auto
    then show "get3 ?r p = get3 gradient p"
      using add p by (simp add: Add_zero)
  qed
  have rest: "\<forall>k. 3 * NumberOfPoints t \<le> k \<longrightarrow> ?r ! k = gradient ! k"
    using EvaluateGradient_base_beyond by blast
  show ?thesis
    unfolding Let_def using fwd add keep rest EvaluateGradient_base_length by blast
qed

theorem EvaluateGradient_scale_witness:
  "3 * NumberOfPoints (two_points (Some [1, 0]) [1, 1] [1, 1]) \<le> length [5, 0, 0, 7, 0, 0 :: real]
   \<and> get3 (snd (EvaluateGradient SurfaceConstraint_EvaluateGradient Whole
        (two_points (Some [1, 0]) [1, 1] [1, 1]) [5, 0, 0, 7, 0, 0] 1 1)) 0 = (9 / 2, 0, 0)
   \<and> get3 (snd (EvaluateGradient SurfaceConstraint_EvaluateGradient Whole
        (two_points (Some [1, 0]) [1, 1] [1, 1]) [5, 0, 0, 7, 0, 0] 1 1)) 1 = (7, 0, 0)"
proof -
  let ?t = "two_points (Some [1, 0]) [1, 1] [1, 1]"
  let ?g = "[5, 0, 0, 7, 0, 0] :: real list"
  have n: "NumberOfPoints ?t = 2" by (simp add: two_points_def)
  have h: "3 * NumberOfPoints ?t \<le> length ?g" by (simp add: n)
  note r = EvaluateGradient_scale [OF h, of SurfaceConstraint_EvaluateGradient Whole 1 1,
      unfolded Let_def, THEN conjunct2, THEN conjunct2, THEN conjunct1, rule_format]
  have 0: "get3 (snd (EvaluateGradient SurfaceConstraint_EvaluateGradient Whole ?t ?g 1 1)) 0
      = (9 / 2, 0, 0)"
    using r [of 0] by (simp add: n two_points_contributions get3_def)
  have 1: "get3 (snd (EvaluateGradient SurfaceConstraint_EvaluateGradient Whole ?t ?g 1 1)) 1
      = (7, 0, 0)"
    using r [of 1] by (simp add: n two_points_contributions get3_def)
  show ?thesis using h 0 1 by simp
qed

subsection \<open>Update of the cached curvature fields\<close>

lemma Update_frame:
  "NumberOfPoints (Update c t) = NumberOfPoints t" "SurfaceMTime (Update c t) = SurfaceMTime t"
  by (simp_all add: Update_def Let_def Modified_GaussCurvature_def Modified_MeanCurvature_def)

lemma Update_fresh_Gauss:
  "\<not> MTime (GaussCurvature t) < SurfaceMTime t \<Longrightarrow> GaussCurvature (Update c t) = GaussCurvature t"
  by (simp add: Update_def Let_def stale_types_def Modified_MeanCurvature_def)

lemma Update_fresh_Mean:
  "\<not> MTime (MeanCurvature t) < SurfaceMTime t \<Longrightarrow> MeanCurvature (Update c t) = MeanCurvature t"
  by (simp add: Update_def Let_def stale_types_def Modified_GaussCurvature_def)

lemma Update_stale_Gauss:
  assumes "NumberOfPoints t \<noteq> 0" and "MTime (GaussCurvature t) < SurfaceMTime t"
  shows "Values (GaussCurvature (Update c t)) =
           MeshSmoothing_Run c 2 (stale_types t) t (SurfaceCurvature_Run c (stale_types t) t) Gauss"
    and "MTime (GaussCurvature (Update c t)) = Suc (MTimeClock t)"
  using assms
  by (simp_all add: Update_def Let_def stale_types_def Modified_GaussCurvature_def
        Modified_MeanCurvature_def)

lemma Update_stale_Mean:
  assumes "NumberOfPoints t \<noteq> 0" and "MTime (MeanCurvature t) < SurfaceMTime t"
  shows "Values (MeanCurvature (Update c t)) =
           MeshSmoothing_Run c 2 (stale_types t) t (SurfaceCurvature_Run c (stale_types t) t) Mean"
    and "MTimeClock t < MTime (MeanCurvature (Update c t))"
  using assms
  by (simp_all add: Update_def Let_def stale_types_def Modified_GaussCurvature_def
        Modified_MeanCurvature_def)

lemma Update_none_stale: "stale_types t = {} \<Longrightarrow> Update c t = t"
  by (simp add: Update_def Let_def)

lemma Update_twice:
  assumes "SurfaceMTime t \<le> MTimeClock t"
  shows "Update c (Update c t) = Update c t"
proof (cases "NumberOfPoints t = 0")
  case True
  then show ?thesis by (simp add: Update_def)
next
  case False
  have g: "\<not> MTime (GaussCurvature (Update c t)) < SurfaceMTime t"
  proof (cases "MTime (GaussCurvature t) < SurfaceMTime t")
    case True
    then show ?thesis using Update_stale_Gauss(2) [OF False True, of c] assms by simp
  next
    case False
    then show ?thesis by (simp add: Update_fresh_Gauss)
  qed
  have m: "\<not> MTime (MeanCurvature (Update c t)) < SurfaceMTime t"
  proof (cases "MTime (MeanCurvature t) < SurfaceMTime t")
    case True
    then show ?thesis
      using Update_stale_Mean(2) [OF \<open>NumberOfPoints t \<noteq> 0\<close> True, of c] assms by simp
  next
    case False
    then show ?thesis by (simp add: Update_fresh_Mean)
  qed
  have "stale_types (Update c t) = {}"
    using g m by (simp add: stale_types_def Update_frame)
  then show ?thesis by (rule Update_none_stale)
qed

text \<open>
  Claim C6. \<open>Update\<close> recomputes exactly the fields whose timestamp is older than the
  timestamp of the surface, each on its own: the estimator and the smoother are called
  for the stale fields only, the smoother with two iterations; a recomputed field holds
  the smoothed output and a fresh timestamp, newer than the timestamp of the surface; a
  field that was fresh keeps its values and its timestamp. Hence a second \<open>Update\<close>, with
  no change of the geometry in between, changes nothing. Timestamps come from one
  modification clock, so the timestamp of the surface is not ahead of the clock.
\<close>

theorem Update_recomputes_stale_fields_only:
  assumes "SurfaceMTime t \<le> MTimeClock t"
  shows "Update c (Update c t) = Update c t
       \<and> (Gauss \<in> stale_types t \<longleftrightarrow> MTime (GaussCurvature t) < SurfaceMTime t)
       \<and> (Mean \<in> stale_types t \<longleftrightarrow> MTime (MeanCurvature t) < SurfaceMTime t)
       \<and> (\<not> MTime (GaussCurvature t) < SurfaceMTime t \<longrightarrow>
             GaussCurvature (Update c t) = GaussCurvature t)
       \<and> (\<not> MTime (MeanCurvature t) < SurfaceMTime t \<longrightarrow>
             MeanCurvature (Update c t) = MeanCurvature t)
       \<and> (NumberOfPoints t \<noteq> 0 \<and> MTime (GaussCurvature t) < SurfaceMTime t \<longrightarrow>
             Values (GaussCurvature (Update c t)) =
               MeshSmoothing_Run c 2 (stale_types t) t (SurfaceCurvature_Run c (stale_types t) t) Gauss
             \<and> SurfaceMTime (Update c t) < MTime (GaussCurvature (Update c t)))
       \<and> (NumberOfPoints t \<noteq> 0 \<and> MTime (MeanCurvature t) < SurfaceMTime t \<longrightarrow>
             Values (MeanCurvature (Update c t)) =
               MeshSmoothing_Run c 2 (stale_types t) t (SurfaceCurvature_Run c (stale_types t) t) Mean
             \<and> SurfaceMTime (Update c t) < MTime (MeanCurvature (Update c t)))"
proof -
  have s: "Gauss \<in> stale_types t \<longleftrightarrow> MTime (GaussCurvature t) < SurfaceMTime t"
    "Mean \<in> stale_types t \<longleftrightarrow> MTime (MeanCurvature t) < SurfaceMTime t"
    by (simp_all add: stale_types_def)
  have g: "Values (GaussCurvature (Update c t)) =
        MeshSmoothing_Run c 2 (stale_types t) t (SurfaceCurvature_Run c (stale_types t) t) Gauss
      \<and> SurfaceMTime (Update c t) < MTime (GaussCurvature (Update c t))"
    if "NumberOfPoints t \<noteq> 0 \<and> MTime (GaussCurvature t) < SurfaceMTime t"
    using that Update_stale_Gauss [of t c] assms by (simp add: Update_frame)
  have m: "Values (MeanCurvature (Update c t)) =
        MeshSmoothing_Run c 2 (stale_types t) t (SurfaceCurvature_Run c (stale_types t) t) Mean
      \<and> SurfaceMTime (Update c t) < MTime (MeanCurvature (Update c t))"
    if "NumberOfPoints t \<noteq> 0 \<and> MTime (MeanCurvature t) < SurfaceMTime t"
    using that Update_stale_Mean [of t c] assms by (simp add: Update_frame)
  show ?thesis
    using Update_twice [OF assms] s Update_fresh_Gauss Update_fresh_Mean g m by blast
qed

theorem Update_recomputes_stale_fields_only_witness:
  "SurfaceMTime stale_Gauss_fresh_Mean \<le> MTimeClock stale_Gauss_fresh_Mean
   \<and> Update example_collaborators (Update example_collaborators stale_Gauss_fresh_Mean)
       = Update example_collaborators stale_Gauss_fresh_Mean
   \<and> Values (GaussCurvature (Update example_collaborators stale_Gauss_fresh_Mean)) = [1 / 4, 3 / 4]
   \<and> MeanCurvature (Update example_collaborators stale_Gauss_fresh_Mean) = \<lparr>Values = [9, 9], MTime = 6\<rparr>"
proof -
  let ?t = stale_Gauss_fresh_Mean
  let ?c = example_collaborators
  have h: "SurfaceMTime ?t \<le> MTimeClock ?t"
    by (simp add: stale_Gauss_fresh_Mean_def)
  have st: "NumberOfPoints ?t \<noteq> 0 \<and> MTime (GaussCurvature ?t) < SurfaceMTime ?t"
    "\<not> MTime (MeanCurvature ?t) < SurfaceMTime ?t"
    by (simp_all add: stale_Gauss_fresh_Mean_def two_points_def)
  note r = Update_recomputes_stale_fields_only [OF h, of ?c]
  have idem: "Update ?c (Update ?c ?t) = Update ?c ?t"
    using r by (rule conjunct1)
  have mean: "MeanCurvature (Update ?c ?t) = MeanCurvature ?t"
    using r st(2) by blast
  have gauss: "Values (GaussCurvature (Update ?c ?t)) =
      MeshSmoothing_Run ?c 2 (stale_types ?t) ?t (SurfaceCurvature_Run ?c (stale_types ?t) ?t) Gauss"
    using r st(1) by blast
  have types: "stale_types ?t = {Gauss}"
    using st by (simp add: stale_types_def)
  have "Values (GaussCurvature (Update ?c ?t)) = [1 / 4, 3 / 4]"
    unfolding gauss types by (simp add: example_collaborators_def)
  moreover have "MeanCurvature ?t = \<lparr>Values = [9, 9], MTime = 6\<rparr>"
    by (simp add: stale_Gauss_fresh_Mean_def)
  ultimately show ?thesis using h idem mean by simp
qed

section \<open>Properties of the explicit Euler optimizer\<close>

subsection \<open>Displacements from forces\<close>

lemma parallel_for_ComputeDisplacements:
  "parallel_for sp (ComputeDisplacements_op g s) 0 n dx =
     fold (\<lambda>ptId d. set3 d ptId (MultiplyScalar (get3 g ptId) s)) [0..<n] dx"
  by (rule parallel_for_fold) (simp_all add: ComputeDisplacements_op_def)

lemma ComputeDisplacements_get3:
  assumes "3 * n \<le> length dx"
  shows "get3 (parallel_for sp (ComputeDisplacements_op g s) 0 n dx) p =
           (if p < n then MultiplyScalar (get3 g p) s else get3 dx p)"
  unfolding parallel_for_ComputeDisplacements
  using fold_set3_range [OF assms, of "\<lambda>p v. MultiplyScalar (get3 g p) s" 0 p] by simp

lemma Euclidean_norm_nonneg: "0 \<le> Euclidean_norm g"
  unfolding Euclidean_norm_def by (rule real_sqrt_ge_zero) (induction g, simp_all)

lemma Euclidean_norm_zero: "(\<forall>x \<in> set g. x = 0) \<Longrightarrow> Euclidean_norm g = 0"
proof -
  assume "\<forall>x \<in> set g. x = 0"
  then have "sum_list (map (\<lambda>x. x * x) g) = 0" by (induction g) simp_all
  then show ?thesis by (simp add: Euclidean_norm_def)
qed

lemma GradientNorm_positive: "NormalizeStepLength e \<Longrightarrow> 0 < GradientNorm M m e"
  by (simp add: GradientNorm_def Let_def)

lemma clamp_pass_Displacement: "clamp_pass force (e\<lparr>Displacement := d\<rparr>) = clamp_pass force e"
  by (simp add: clamp_pass_def effective_maximum_def Let_def)

lemma UpdateDisplacement_buffers:
  assumes "Gradient e = Some g" and "Displacement e = Some dx"
    and "3 * Model_NumberOfPoints M m \<le> length g" and "3 * Model_NumberOfPoints M m \<le> length dx"
  shows "UpdateDisplacement sp M m e =
     TruncateDisplacement sp M m False
       (e\<lparr>Displacement := Some (parallel_for sp
            (ComputeDisplacements_op g
               (ComputeDisplacements_StepLength (StepLength e) (GradientNorm M m e)))
            0 (Model_NumberOfPoints M m) dx)\<rparr>)"
  using assms by (simp add: UpdateDisplacement_def Let_def access_def buffer_def)

lemma length_ComputeDisplacements:
  "length (parallel_for sp (ComputeDisplacements_op g s) 0 n dx) = length dx"
  unfolding parallel_for_ComputeDisplacements by (rule length_fold_set3)

text \<open>
  Claim C3. In the displacement update of the optimizer, \<open>UpdateDisplacement\<close>, the
  displacement of every point, in the buffer that is then handed to
  \<open>TruncateDisplacement\<close> (and that is the result when no clamp pass runs), is
  \<open>(- stepLength / norm) \<times> gradient[point]\<close> with \<open>norm = GradientNorm()\<close>. With normalization
  enabled, \<open>norm\<close> is the norm that the model reports for the gradient, the Euclidean norm of
  the whole gradient vector, replaced by \<open>1\<close> whenever it is \<open>\<le> 0\<close>, so that \<open>GradientNorm\<close> is
  positive even for an exactly zero gradient; with normalization disabled, \<open>norm\<close> is
  \<open>1 / pointCount\<close>. The buffers hold the three scalars of every point of the model.
\<close>

theorem UpdateDisplacement_scaled_gradient:
  assumes "Gradient e = Some g" and "Displacement e = Some dx"
    and "3 * Model_NumberOfPoints M m \<le> length g" and "3 * Model_NumberOfPoints M m \<le> length dx"
    and "ptId < Model_NumberOfPoints M m"
  shows "(let dx' = parallel_for sp
                (ComputeDisplacements_op g
                   (ComputeDisplacements_StepLength (StepLength e) (GradientNorm M m e)))
                0 (Model_NumberOfPoints M m) dx
          in UpdateDisplacement sp M m e =
               TruncateDisplacement sp M m False (e\<lparr>Displacement := Some dx'\<rparr>)
           \<and> length dx' = length dx
           \<and> get3 dx' ptId = MultiplyScalar (get3 g ptId) (- StepLength e / GradientNorm M m e)
           \<and> (\<not> clamp_pass False e \<longrightarrow>
                 UpdateDisplacement sp M m e = Inr (e\<lparr>Displacement := Some dx'\<rparr>)))
       \<and> (NormalizeStepLength e \<longrightarrow>
             GradientNorm M m e =
               (if Model_GradientNorm M m (buffer (Gradient e)) \<le> 0 then 1
                else Model_GradientNorm M m (buffer (Gradient e)))
             \<and> 0 < GradientNorm M m e)
       \<and> (NormalizeStepLength e \<and> Model_GradientNorm M m = Euclidean_norm \<longrightarrow>
             GradientNorm M m e =
               (if Euclidean_norm (buffer (Gradient e)) = 0 then 1
                else Euclidean_norm (buffer (Gradient e)))
             \<and> ((\<forall>x \<in> set (buffer (Gradient e)). x = 0) \<longrightarrow> GradientNorm M m e = 1))
       \<and> (\<not> NormalizeStepLength e \<longrightarrow>
             GradientNorm M m e = 1 / real (Model_NumberOfPoints M m))"
proof -
  let ?dx' = "parallel_for sp
                (ComputeDisplacements_op g
                   (ComputeDisplacements_StepLength (StepLength e) (GradientNorm M m e)))
                0 (Model_NumberOfPoints M m) dx"
  have upd: "UpdateDisplacement sp M m e =
      TruncateDisplacement sp M m False (e\<lparr>Displacement := Some ?dx'\<rparr>)"
    by (rule UpdateDisplacement_buffers [OF assms(1-4)])
  have len: "length ?dx' = length dx" by (rule length_ComputeDisplacements)
  have d: "get3 ?dx' ptId = MultiplyScalar (get3 g ptId) (- StepLength e / GradientNorm M m e)"
    using ComputeDisplacements_get3 [OF assms(4)] assms(5)
    by (simp add: ComputeDisplacements_StepLength_def)
  have noclamp: "\<not> clamp_pass False e \<longrightarrow>
      UpdateDisplacement sp M m e = Inr (e\<lparr>Displacement := Some ?dx'\<rparr>)"
    unfolding upd by (simp add: TruncateDisplacement_def clamp_pass_Displacement)
  have n: "NormalizeStepLength e \<longrightarrow>
             GradientNorm M m e =
               (if Model_GradientNorm M m (buffer (Gradient e)) \<le> 0 then 1
                else Model_GradientNorm M m (buffer (Gradient e)))
             \<and> 0 < GradientNorm M m e"
    by (simp add: GradientNorm_def Let_def)
  have eu: "GradientNorm M m e =
               (if Euclidean_norm (buffer (Gradient e)) = 0 then 1
                else Euclidean_norm (buffer (Gradient e)))
             \<and> ((\<forall>x \<in> set (buffer (Gradient e)). x = 0) \<longrightarrow> GradientNorm M m e = 1)"
    if "NormalizeStepLength e \<and> Model_GradientNorm M m = Euclidean_norm"
  proof -
    have "\<not> 0 < Euclidean_norm (buffer (Gradient e)) \<longleftrightarrow> Euclidean_norm (buffer (Gradient e)) = 0"
      using Euclidean_norm_nonneg [of "buffer (Gradient e)"] by linarith
    then have 1: "GradientNorm M m e =
               (if Euclidean_norm (buffer (Gradient e)) = 0 then 1
                else Euclidean_norm (buffer (Gradient e)))"
      using that by (simp add: GradientNorm_def Let_def)
    then show ?thesis using Euclidean_norm_zero by simp
  qed
  have u: "\<not> NormalizeStepLength e \<longrightarrow>
             GradientNorm M m e = 1 / real (Model_NumberOfPoints M m)"
    by (simp add: GradientNorm_def)
  show ?thesis unfolding Let_def using upd len d noclamp n eu u by blast
qed

theorem UpdateDisplacement_scaled_gradient_witness:
  "Gradient one_point_optimizer = Some [2, 0, 0]
   \<and> Displacement one_point_optimizer = Some [0, 0, 0]
   \<and> 3 * Model_NumberOfPoints (recording_Model 1 False) [] \<le> length [2, 0, 0 :: real]
   \<and> 3 * Model_NumberOfPoints (recording_Model 1 False) [] \<le> length [0, 0, 0 :: real]
   \<and> (0 :: nat) < Model_NumberOfPoints (recording_Model 1 False) []
   \<and> NormalizeStepLength one_point_optimizer
   \<and> GradientNorm (recording_Model 1 False) [] one_point_optimizer = 2
   \<and> UpdateDisplacement Whole (recording_Model 1 False) [] one_point_optimizer
        = Inr (one_point_optimizer\<lparr>Displacement := Some [- 1, 0, 0]\<rparr>)"
proof -
  let ?M = "recording_Model 1 False"
  let ?e = one_point_optimizer
  have e: "NormalizeStepLength ?e" "StepLength ?e = 1" "MaximumDisplacement ?e = 0"
    "Gradient ?e = Some [2, 0, 0]" "Displacement ?e = Some [0, 0, 0]"
    by (simp_all add: one_point_optimizer_def EulerMethod_new_def LocalOptimizer.defs
          EulerMethod.defs)
  have h: "3 * Model_NumberOfPoints ?M [] \<le> length [2, 0, 0 :: real]"
    "3 * Model_NumberOfPoints ?M [] \<le> length [0, 0, 0 :: real]"
    "0 < Model_NumberOfPoints ?M []"
    by (simp_all add: recording_Model_def)
  have eu: "NormalizeStepLength ?e \<and> Model_GradientNorm ?M [] = Euclidean_norm"
    using e(1) by (simp add: recording_Model_def)
  have nc: "\<not> clamp_pass False ?e"
    by (simp add: clamp_pass_def effective_maximum_def e)
  note r = UpdateDisplacement_scaled_gradient [OF e(4) e(5) h, of Whole, unfolded Let_def]
  have "Euclidean_norm [2, 0, 0] = 2" by (simp add: Euclidean_norm_def)
  moreover have "GradientNorm ?M [] ?e =
      (if Euclidean_norm (buffer (Gradient ?e)) = 0 then 1 else Euclidean_norm (buffer (Gradient ?e)))"
    using r eu by blast
  ultimately have n: "GradientNorm ?M [] ?e = 2" by (simp add: e(4) buffer_def)
  have c: "parallel_for Whole
        (ComputeDisplacements_op [2, 0, 0] (ComputeDisplacements_StepLength (StepLength ?e) 2))
        0 (Model_NumberOfPoints ?M []) [0, 0, 0] = [- 1, 0, 0]"
    by (simp add: e(2) recording_Model_def ComputeDisplacements_op_def
          ComputeDisplacements_StepLength_def get3_def)
  have "UpdateDisplacement Whole ?M [] ?e
      = Inr (?e\<lparr>Displacement := Some (parallel_for Whole
            (ComputeDisplacements_op [2, 0, 0]
               (ComputeDisplacements_StepLength (StepLength ?e) (GradientNorm ?M [] ?e)))
            0 (Model_NumberOfPoints ?M []) [0, 0, 0])\<rparr>)"
    using r nc by blast
  then have "UpdateDisplacement Whole ?M [] ?e = Inr (?e\<lparr>Displacement := Some [- 1, 0, 0]\<rparr>)"
    unfolding n c .
  then show ?thesis using e(1,4,5) h n by simp
qed

subsection \<open>Clamping of the displacements\<close>

lemma Dot_self_nonneg: "0 \<le> Dot v v"
  by (cases v) simp

lemma clamp_within: "Dot v v \<le> maximum \<Longrightarrow> clamp maximum v = v"
  by (cases v) (simp add: Let_def)

lemma clamp_exceeding:
  "maximum < Dot v v \<Longrightarrow> clamp maximum v = MultiplyScalar v (sqrt (maximum / Dot v v))"
  by (cases v) (simp add: Let_def)

lemma Norm_le_imp_Dot_le: "Norm v \<le> max_dx \<Longrightarrow> Dot v v \<le> max_dx * max_dx"
  unfolding Norm_def using sqrt_le_D [of "Dot v v" max_dx] by (simp add: power2_eq_square)

lemma parallel_for_ClampDisplacements:
  "parallel_for sp (ClampDisplacements_op maximum) 0 n dx =
     fold (\<lambda>ptId d. set3 d ptId (clamp maximum (get3 d ptId))) [0..<n] dx"
  by (rule parallel_for_fold) (simp_all add: ClampDisplacements_op_def)

lemma ClampDisplacements_get3:
  assumes "3 * n \<le> length dx"
  shows "get3 (parallel_for sp (ClampDisplacements_op maximum) 0 n dx) p =
           (if p < n then clamp maximum (get3 dx p) else get3 dx p)"
  unfolding parallel_for_ClampDisplacements
  using fold_set3_range [OF assms, of "\<lambda>p. clamp maximum" 0 p] by simp

lemma length_ClampDisplacements:
  "length (parallel_for sp (ClampDisplacements_op maximum) 0 n dx) = length dx"
  unfolding parallel_for_ClampDisplacements by (rule length_fold_set3)

lemma TruncateDisplacement_pass:
  assumes "clamp_pass force e" and "Displacement e = Some dx"
    and "3 * Model_NumberOfPoints M m \<le> length dx"
  shows "TruncateDisplacement sp M m force e =
     Inr (e\<lparr>Displacement := Some (parallel_for sp
            (ClampDisplacements_op (effective_maximum e * effective_maximum e))
            0 (Model_NumberOfPoints M m) dx)\<rparr>)"
  using assms
  by (simp add: TruncateDisplacement_def access_def ClampDisplacements_Maximum_def)

text \<open>
  Claim C4. The clamp of one displacement vector against the maximum \<open>max_dx\<close> is idempotent
  in the sense of the claim and preserves the direction: a vector whose magnitude is
  within the bound (whose squared norm does not exceed \<open>max_dx\<^sup>2\<close>) is left unchanged, so a
  second clamp changes nothing once the squared norm of the clamped vector is within
  \<open>max_dx\<^sup>2\<close>; a vector whose squared norm exceeds \<open>max_dx\<^sup>2\<close> is scaled by
  \<open>sqrt (max_dx\<^sup>2 / norm\<^sup>2)\<close>, a non-negative factor (positive unless \<open>max_dx = 0\<close>), and no
  other vector is changed. The clamp pass runs exactly when it is forced, or normalization
  is off, or the effective maximum (the configured maximum if \<open>> 0\<close>, else the step length
  if normalizing, else \<open>1\<close>) is less than the step length; when it runs it clamps the
  vector of every point, and otherwise the optimizer is unchanged. Nothing is stated about
  the exact squared norm of a rescaled vector, which depends on the rounding of the
  code's doubles.
\<close>

theorem clamp_idempotent_direction_preserving:
  "(Dot (clamp (ClampDisplacements_Maximum max_dx) v) (clamp (ClampDisplacements_Maximum max_dx) v)
      \<le> max_dx * max_dx \<longrightarrow>
    clamp (ClampDisplacements_Maximum max_dx) (clamp (ClampDisplacements_Maximum max_dx) v)
      = clamp (ClampDisplacements_Maximum max_dx) v)
   \<and> (Norm v \<le> max_dx \<longrightarrow> clamp (ClampDisplacements_Maximum max_dx) v = v)
   \<and> (Dot v v \<le> max_dx * max_dx \<longrightarrow> clamp (ClampDisplacements_Maximum max_dx) v = v)
   \<and> (max_dx * max_dx < Dot v v \<longrightarrow>
         clamp (ClampDisplacements_Maximum max_dx) v
           = MultiplyScalar v (sqrt (max_dx * max_dx / Dot v v))
         \<and> 0 \<le> sqrt (max_dx * max_dx / Dot v v)
         \<and> (max_dx \<noteq> 0 \<longrightarrow> 0 < sqrt (max_dx * max_dx / Dot v v)))
   \<and> effective_maximum e =
        (if MaximumDisplacement e > 0 then MaximumDisplacement e
         else if NormalizeStepLength e then StepLength e else 1)
   \<and> (clamp_pass force e \<longleftrightarrow>
        force \<or> \<not> NormalizeStepLength e \<or> effective_maximum e < StepLength e)
   \<and> (\<not> clamp_pass force e \<longrightarrow> TruncateDisplacement sp M m force e = Inr e)
   \<and> (clamp_pass force e \<and> Displacement e = Some dx \<and> 3 * Model_NumberOfPoints M m \<le> length dx \<longrightarrow>
        (\<exists>dx'. TruncateDisplacement sp M m force e = Inr (e\<lparr>Displacement := Some dx'\<rparr>)
           \<and> length dx' = length dx
           \<and> (\<forall>p. p < Model_NumberOfPoints M m \<longrightarrow>
                get3 dx' p = clamp (ClampDisplacements_Maximum (effective_maximum e)) (get3 dx p))))"
proof -
  let ?M = "ClampDisplacements_Maximum max_dx"
  have M: "?M = max_dx * max_dx" "0 \<le> ?M"
    by (simp_all add: ClampDisplacements_Maximum_def)
  have idem: "Dot (clamp ?M v) (clamp ?M v) \<le> max_dx * max_dx \<longrightarrow>
      clamp ?M (clamp ?M v) = clamp ?M v"
    using clamp_within [of "clamp ?M v" ?M] by (simp add: M(1))
  have within: "Norm v \<le> max_dx \<longrightarrow> clamp ?M v = v"
    using Norm_le_imp_Dot_le [of v max_dx] clamp_within [of v ?M] by (simp add: M(1))
  have unchanged: "Dot v v \<le> max_dx * max_dx \<longrightarrow> clamp ?M v = v"
    using clamp_within [of v ?M] by (simp add: M(1))
  have scaled: "clamp ?M v = MultiplyScalar v (sqrt (max_dx * max_dx / Dot v v))
         \<and> 0 \<le> sqrt (max_dx * max_dx / Dot v v)
         \<and> (max_dx \<noteq> 0 \<longrightarrow> 0 < sqrt (max_dx * max_dx / Dot v v))"
    if x: "max_dx * max_dx < Dot v v"
  proof -
    have pos: "0 < Dot v v" using x M by (smt (verit))
    have "max_dx \<noteq> 0 \<longrightarrow> 0 < max_dx * max_dx / Dot v v"
      using pos by (simp add: zero_less_mult_iff zero_less_divide_iff) linarith
    then show ?thesis
      using clamp_exceeding [of ?M v] x pos by (simp add: M(1))
  qed
  have eff: "effective_maximum e =
        (if MaximumDisplacement e > 0 then MaximumDisplacement e
         else if NormalizeStepLength e then StepLength e else 1)"
    by (simp add: effective_maximum_def Let_def)
  have pass: "clamp_pass force e \<longleftrightarrow>
        force \<or> \<not> NormalizeStepLength e \<or> effective_maximum e < StepLength e"
    by (simp add: clamp_pass_def)
  have skip: "\<not> clamp_pass force e \<longrightarrow> TruncateDisplacement sp M m force e = Inr e"
    by (simp add: TruncateDisplacement_def)
  have run: "\<exists>dx'. TruncateDisplacement sp M m force e = Inr (e\<lparr>Displacement := Some dx'\<rparr>)
           \<and> length dx' = length dx
           \<and> (\<forall>p. p < Model_NumberOfPoints M m \<longrightarrow>
                get3 dx' p = clamp (ClampDisplacements_Maximum (effective_maximum e)) (get3 dx p))"
    if y: "clamp_pass force e \<and> Displacement e = Some dx \<and> 3 * Model_NumberOfPoints M m \<le> length dx"
  proof -
    let ?dx' = "parallel_for sp
            (ClampDisplacements_op (effective_maximum e * effective_maximum e))
            0 (Model_NumberOfPoints M m) dx"
    have "TruncateDisplacement sp M m force e = Inr (e\<lparr>Displacement := Some ?dx'\<rparr>)"
      using y by (simp add: TruncateDisplacement_pass)
    moreover have "length ?dx' = length dx" by (rule length_ClampDisplacements)
    moreover have "\<forall>p. p < Model_NumberOfPoints M m \<longrightarrow>
        get3 ?dx' p = clamp (ClampDisplacements_Maximum (effective_maximum e)) (get3 dx p)"
      using y by (simp add: ClampDisplacements_get3 ClampDisplacements_Maximum_def)
    ultimately show ?thesis by blast
  qed
  show ?thesis
    using idem within unchanged scaled eff pass skip run by blast
qed

theorem clamp_idempotent_direction_preserving_witness:
  "(1 :: real) * 1 < Dot (2, 0, 0) (2, 0, 0)
   \<and> clamp (ClampDisplacements_Maximum 1) (2, 0, 0) = (1, 0, 0)
   \<and> Dot (1, 0, 0) (1, 0, 0) \<le> (1 :: real) * 1
   \<and> clamp (ClampDisplacements_Maximum 1) (clamp (ClampDisplacements_Maximum 1) (2, 0, 0)) = (1, 0, 0)
   \<and> clamp_pass True one_point_optimizer
   \<and> Displacement one_point_optimizer = Some [0, 0, 0]
   \<and> 3 * Model_NumberOfPoints (recording_Model 1 False) [] \<le> length [0, 0, 0 :: real]
   \<and> (\<exists>dx'. TruncateDisplacement Whole (recording_Model 1 False) [] True one_point_optimizer
              = Inr (one_point_optimizer\<lparr>Displacement := Some dx'\<rparr>)
           \<and> length dx' = 3)"
proof -
  let ?M = "recording_Model 1 False"
  let ?e = one_point_optimizer
  note r = clamp_idempotent_direction_preserving
      [of 1 "(2, 0, 0)" ?e True Whole ?M "[]" "[0, 0, 0]"]
  have x: "(1 :: real) * 1 < Dot (2, 0, 0) (2, 0, 0)" by simp
  have "clamp (ClampDisplacements_Maximum 1) (2, 0, 0)
      = MultiplyScalar (2, 0, 0) (sqrt (1 * 1 / Dot (2, 0, 0) (2, 0, 0)))"
    using r x by blast
  then have c: "clamp (ClampDisplacements_Maximum 1) (2, 0, 0) = (1, 0, 0)"
    by (simp add: real_sqrt_divide)
  have w: "Dot (clamp (ClampDisplacements_Maximum 1) (2, 0, 0))
        (clamp (ClampDisplacements_Maximum 1) (2, 0, 0)) \<le> (1 :: real) * 1"
    unfolding c by simp
  have "clamp (ClampDisplacements_Maximum 1) (clamp (ClampDisplacements_Maximum 1) (2, 0, 0))
      = clamp (ClampDisplacements_Maximum 1) (2, 0, 0)"
    using r w by blast
  then have i: "clamp (ClampDisplacements_Maximum 1) (clamp (ClampDisplacements_Maximum 1) (2, 0, 0))
      = (1, 0, 0)"
    by (simp only: c)
  have p: "clamp_pass True ?e" by (simp add: clamp_pass_def)
  have d: "Displacement ?e = Some [0, 0, 0]"
    by (simp add: one_point_optimizer_def)
  have n: "3 * Model_NumberOfPoints ?M [] \<le> length [0, 0, 0 :: real]"
    by (simp add: recording_Model_def)
  have "\<exists>dx'. TruncateDisplacement Whole ?M [] True ?e = Inr (?e\<lparr>Displacement := Some dx'\<rparr>)
           \<and> length dx' = length [0, 0, 0 :: real]
           \<and> (\<forall>p. p < Model_NumberOfPoints ?M [] \<longrightarrow>
                get3 dx' p = clamp (ClampDisplacements_Maximum (effective_maximum ?e)) (get3 [0, 0, 0] p))"
    using r p d n by blast
  then have t: "\<exists>dx'. TruncateDisplacement Whole ?M [] True ?e = Inr (?e\<lparr>Displacement := Some dx'\<rparr>)
           \<and> length dx' = 3"
    by auto
  have one: "Dot (1, 0, 0) (1, 0, 0) \<le> (1 :: real) * 1" by simp
  show ?thesis using x c one i p d n t by blast
qed

subsection \<open>The iteration loop\<close>

lemma TruncateDisplacement_Delta:
  "TruncateDisplacement sp M m force e = Inr e' \<Longrightarrow> Delta e' = Delta e"
  by (auto simp: TruncateDisplacement_def split: if_splits option.splits)

lemma UpdateDisplacement_Delta:
  "UpdateDisplacement sp M m e = Inr e' \<Longrightarrow> Delta e' = Delta e"
  by (auto simp: UpdateDisplacement_def Let_def split: option.splits
      dest!: TruncateDisplacement_Delta)

lemma RemeshModel_Delta: "Delta (fst (RemeshModel M e m)) = Delta e"
  by (simp add: RemeshModel_def Let_def split: prod.splits)

lemma Run_forces_Delta:
  assumes "Run_forces sp M iter e m = Inr (e', m')"
  shows "Delta e' = Delta e"
proof -
  obtain e1 m1 where r: "(if iter > 1 then RemeshModel M e m else (e, m)) = (e1, m1)"
    by (cases "if iter > 1 then RemeshModel M e m else (e, m)")
  have d1: "Delta e1 = Delta e"
    using r RemeshModel_Delta [of M e m] by (auto split: if_splits)
  have "UpdateDisplacement sp M m1 (e1\<lparr>Gradient := map_option (Model_Gradient M m1) (Gradient e1)\<rparr>)
      = Inr e'"
    using assms r by (simp add: Run_forces_def Let_def split: sum.splits)
  from UpdateDisplacement_Delta [OF this] d1 show ?thesis by simp
qed

lemma Run_iteration_degenerate:
  assumes "Run_forces sp M iter e m = Inr (e', m')"
    and "Model_Step M m' (buffer (Displacement e')) = (delta, m'')"
    and "delta \<le> Delta e"
  shows "Run_iteration sp M iter e m val = Inr (Some DegenerateStep, e'\<lparr>LastDelta := delta\<rparr>, m'', val)"
  using assms Run_forces_Delta [OF assms(1)]
  by (simp add: Run_iteration_def Let_def)

lemma Run_iteration_not_degenerate:
  assumes "Run_forces sp M iter e m = Inr (e', m')"
    and "Model_Step M m' (buffer (Displacement e')) = (delta, m'')"
    and "Delta e < delta"
  shows "Run_iteration sp M iter e m val \<noteq> Inr (Some DegenerateStep, x)"
  using assms Run_forces_Delta [OF assms(1)]
  by (auto simp: Run_iteration_def Let_def split: sum.splits prod.splits)

lemma one_point_optimizer_fields:
  "Epsilon one_point_optimizer = 1 / 10 ^ 9" "Delta one_point_optimizer = 1 / 10 ^ 12"
  "NumberOfSteps one_point_optimizer = 1" "StepLength one_point_optimizer = 1"
  "NormalizeStepLength one_point_optimizer" "MaximumDisplacement one_point_optimizer = 0"
  "NormalDisplacement one_point_optimizer = None"
  "Gradient one_point_optimizer = Some [2, 0, 0]"
  "Displacement one_point_optimizer = Some [0, 0, 0]"
  by (simp_all add: one_point_optimizer_def EulerMethod_new_def LocalOptimizer.defs EulerMethod.defs)

lemma one_point_Run_forces:
  "Run_forces Whole (recording_Model delta conv) (Suc 0) one_point_optimizer []
     = Inr (one_point_optimizer\<lparr>Displacement := Some [- 1, 0, 0]\<rparr>, [])"
proof -
  let ?M = "recording_Model delta conv"
  let ?e = one_point_optimizer
  have g: "?e\<lparr>Gradient := map_option (Model_Gradient ?M []) (Gradient ?e)\<rparr> = ?e"
    by (simp add: recording_Model_def one_point_optimizer_fields)
  have n: "Model_NumberOfPoints ?M [] = 1" by (simp add: recording_Model_def)
  have "Euclidean_norm [2, 0, 0] = 2" by (simp add: Euclidean_norm_def)
  then have norm: "GradientNorm ?M [] ?e = 2"
    by (simp add: GradientNorm_def recording_Model_def one_point_optimizer_fields buffer_def)
  have c: "ComputeDisplacements_op [2, 0, 0] (- (1 / 2)) 0 (Suc 0) [0, 0, 0] = [- 1, 0, 0]"
    by (simp add: ComputeDisplacements_op_def get3_def)
  have np: "\<not> clamp_pass False (?e\<lparr>Displacement := Some [- 1, 0, 0]\<rparr>)"
    by (simp add: clamp_pass_def effective_maximum_def one_point_optimizer_fields)
  have "UpdateDisplacement Whole ?M [] ?e = Inr (?e\<lparr>Displacement := Some [- 1, 0, 0]\<rparr>)"
    using np
    by (simp add: UpdateDisplacement_def Let_def n norm access_def one_point_optimizer_fields
          buffer_def ComputeDisplacements_StepLength_def c TruncateDisplacement_def)
  then show ?thesis
    by (simp add: Run_forces_def g)
qed

lemma one_point_Run_iteration:
  assumes "1 / 10 ^ 12 < delta"
  shows "Run_iteration Whole (recording_Model delta conv) (Suc 0) one_point_optimizer [] (Finite 0)
     = Inr (if conv then Some Converged else None,
            one_point_optimizer\<lparr>Displacement := Some [- 1, 0, 0], LastDelta := delta\<rparr>,
            [Call_Step, Call_Update, Call_Converged], Finite 0)"
proof -
  have s: "Model_Step (recording_Model delta c) [] d = (delta, [Call_Step])" for c d
    by (simp add: recording_Model_def)
  have u: "Model_Update (recording_Model delta c) [Call_Step] = [Call_Step, Call_Update]"
    "Model_Value (recording_Model delta c) m = Finite 0"
    "Optimizer_Converged (recording_Model delta c) i p v d [Call_Step, Call_Update]
       = (c, [Call_Step, Call_Update, Call_Converged])" for c m i p v d
    by (simp_all add: recording_Model_def)
  show ?thesis
    using assms
    by (simp add: Run_iteration_def one_point_Run_forces s u Let_def
          UpdateNormalDisplacement_def one_point_optimizer_fields)
qed

lemma one_point_Run_loop:
  assumes "1 / 10 ^ 12 < delta"
  shows "Run_loop Whole (recording_Model delta conv) 1 0 one_point_optimizer [] (Finite 0)
     = Inr (if conv then Converged else MaxIterationsReached,
            one_point_optimizer\<lparr>Displacement := Some [- 1, 0, 0], LastDelta := delta\<rparr>,
            [Call_Step, Call_Update, Call_Converged], Finite 0)"
  by (subst Run_loop.simps) (simp add: one_point_Run_iteration [OF assms])

text \<open>
  Claim C5, as stated, fails: the threshold of the exit is the member \<^verbatim>\<open>_Delta\<close>, not the
  convergence epsilon \<^verbatim>\<open>_Epsilon\<close> that the constructor sets to \<open>10\<^sup>-\<^sup>9\<close>. With \<^verbatim>\<open>_Delta\<close> \<open>= 10\<^sup>-\<^sup>1\<^sup>2\<close>
  and a realized step of \<open>10\<^sup>-\<^sup>1\<^sup>0 \<le> 10\<^sup>-\<^sup>9\<close>, the iteration does not leave the loop: the model is
  updated after the step and the stopping criteria are consulted, and the loop ends by
  its iteration bound, or in state \<open>Converged\<close> when the criteria say so.
\<close>

theorem Run_epsilon_counterexample:
  "Epsilon one_point_optimizer = 1 / 10 ^ 9
   \<and> (1 / 10 ^ 10 :: real) \<le> Epsilon one_point_optimizer
   \<and> Run_iteration Whole (recording_Model (1 / 10 ^ 10) False) (Suc 0) one_point_optimizer []
        (Finite 0)
      = Inr (None,
             one_point_optimizer\<lparr>Displacement := Some [- 1, 0, 0], LastDelta := 1 / 10 ^ 10\<rparr>,
             [Call_Step, Call_Update, Call_Converged], Finite 0)
   \<and> Run_loop Whole (recording_Model (1 / 10 ^ 10) False) (NumberOfSteps one_point_optimizer) 0
        one_point_optimizer [] (Finite 0)
      = Inr (MaxIterationsReached,
             one_point_optimizer\<lparr>Displacement := Some [- 1, 0, 0], LastDelta := 1 / 10 ^ 10\<rparr>,
             [Call_Step, Call_Update, Call_Converged], Finite 0)
   \<and> Run_loop Whole (recording_Model (1 / 10 ^ 10) True) (NumberOfSteps one_point_optimizer) 0
        one_point_optimizer [] (Finite 0)
      = Inr (Converged,
             one_point_optimizer\<lparr>Displacement := Some [- 1, 0, 0], LastDelta := 1 / 10 ^ 10\<rparr>,
             [Call_Step, Call_Update, Call_Converged], Finite 0)"
proof -
  have d: "(1 / 10 ^ 12 :: real) < 1 / 10 ^ 10" by simp
  note 0 = one_point_Run_iteration [OF d, of False]
  note 1 = one_point_Run_loop [OF d, of False]
  note 2 = one_point_Run_loop [OF d, of True]
  show ?thesis
    using 0 1 2 by (simp add: one_point_optimizer_fields)
qed

text \<open>
  Claim C5, amended. In every iteration of the loop, if the realized step returned by
  the stepping operation of the model is \<open>\<le>\<close> \<^verbatim>\<open>_Delta\<close> (the threshold inherited from the base
  optimizer; the constructor sets the convergence epsilon \<^verbatim>\<open>_Epsilon\<close> to \<open>10\<^sup>-\<^sup>9\<close> and leaves
  \<^verbatim>\<open>_Delta\<close> as it is), the loop exits at once in state \<open>DegenerateStep\<close>: the model is left as
  the stepping operation returned it, the tracked normal displacement and the energy
  value are unchanged, and the stopping criteria are not consulted, whatever they would
  answer. A larger step never ends the iteration in state \<open>DegenerateStep\<close>.
\<close>

theorem Run_degenerate_step_first:
  assumes "iter < n"
    and "Run_forces sp M (Suc iter) e m = Inr (e', m')"
    and "Model_Step M m' (buffer (Displacement e')) = (delta, m'')"
  shows "(delta \<le> Delta e \<longrightarrow>
           Run_loop sp M n iter e m val = Inr (DegenerateStep, e'\<lparr>LastDelta := delta\<rparr>, m'', val))
       \<and> (Delta e < delta \<longrightarrow>
           (\<forall>x. Run_iteration sp M (Suc iter) e m val \<noteq> Inr (Some DegenerateStep, x)))
       \<and> Epsilon (EulerMethod_new base) = 1 / 10 ^ 9
       \<and> Delta (EulerMethod_new base) = Delta base"
proof -
  have exit: "Run_loop sp M n iter e m val = Inr (DegenerateStep, e'\<lparr>LastDelta := delta\<rparr>, m'', val)"
    if "delta \<le> Delta e"
    using assms(1) Run_iteration_degenerate [OF assms(2,3) that, of val]
    by (subst Run_loop.simps) simp
  have other: "\<forall>x. Run_iteration sp M (Suc iter) e m val \<noteq> Inr (Some DegenerateStep, x)"
    if "Delta e < delta"
    using Run_iteration_not_degenerate [OF assms(2,3) that] by blast
  have ctor: "Epsilon (EulerMethod_new base) = 1 / 10 ^ 9" "Delta (EulerMethod_new base) = Delta base"
    by (simp_all add: EulerMethod_new_def LocalOptimizer.defs)
  show ?thesis using exit other ctor by blast
qed

theorem Run_degenerate_step_first_witness:
  "(0 :: nat) < 1
   \<and> Run_forces Whole (recording_Model (1 / 10 ^ 13) True) (Suc 0) one_point_optimizer []
        = Inr (one_point_optimizer\<lparr>Displacement := Some [- 1, 0, 0]\<rparr>, [])
   \<and> (1 / 10 ^ 13 :: real) \<le> Delta one_point_optimizer
   \<and> Run_loop Whole (recording_Model (1 / 10 ^ 13) True) 1 0 one_point_optimizer [] (Finite 0)
        = Inr (DegenerateStep,
               one_point_optimizer\<lparr>Displacement := Some [- 1, 0, 0], LastDelta := 1 / 10 ^ 13\<rparr>,
               [Call_Step], Finite 0)"
proof -
  let ?M = "recording_Model (1 / 10 ^ 13) True"
  let ?e' = "one_point_optimizer\<lparr>Displacement := Some [- 1, 0, 0]\<rparr>"
  have h: "(0 :: nat) < 1" by simp
  have f: "Run_forces Whole ?M (Suc 0) one_point_optimizer [] = Inr (?e', [])"
    by (rule one_point_Run_forces)
  have s: "Model_Step ?M [] (buffer (Displacement ?e')) = (1 / 10 ^ 13, [Call_Step])"
    by (simp add: recording_Model_def)
  have d: "(1 / 10 ^ 13 :: real) \<le> Delta one_point_optimizer"
    by (simp add: one_point_optimizer_fields)
  from Run_degenerate_step_first [OF h f s, of "Finite 0"] d
  have "Run_loop Whole ?M 1 0 one_point_optimizer [] (Finite 0)
      = Inr (DegenerateStep, ?e'\<lparr>LastDelta := 1 / 10 ^ 13\<rparr>, [Call_Step], Finite 0)"
    by blast
  then show ?thesis using h f d by simp
qed

subsection \<open>Copying an optimizer\<close>

lemma CopyAttributes_no_allocation:
  assumes "0 < NumberOfDOFs other"
  shows "CopyAttributes this other =
     (case memcpy (Gradient this) (Gradient other) (NumberOfDOFs other) of
        Inl f \<Rightarrow> Inl f
      | Inr g \<Rightarrow>
          (case memcpy (Displacement this) (Displacement other) (NumberOfDOFs other) of
             Inl f \<Rightarrow> Inl f
           | Inr d \<Rightarrow>
               Inr (this\<lparr>StepLength := StepLength other,
                         NormalizeStepLength := NormalizeStepLength other,
                         MaximumDisplacement := MaximumDisplacement other,
                         NormalDisplacement := NormalDisplacement other,
                         NumberOfDOFs := NumberOfDOFs other,
                         Gradient := g, Displacement := d\<rparr>)))"
  using assms by (simp add: CopyAttributes_def Let_def split: sum.splits)

text \<open>
  Claim C10 does not hold of the code. \<^verbatim>\<open>CopyAttributes\<close> assigns \<^verbatim>\<open>_NumberOfDOFs\<close> before it
  compares it with the count of the source, so for a source with a positive count the
  buffers are never reallocated: the copy constructor copies through the null pointers
  it starts with, and the assignment copies into the buffers the target already has,
  through a null pointer or beyond the end of a shorter buffer.
\<close>

theorem CopyAttributes_skips_allocation:
  assumes "0 < NumberOfDOFs other"
  shows "EulerMethod_copy uninitialized other = Inl NullPointer
       \<and> (Gradient this = None \<longrightarrow> EulerMethod_assign this other = Inl NullPointer)
       \<and> (\<forall>g og. Gradient this = Some g \<and> length g < NumberOfDOFs other \<and> Gradient other = Some og
             \<longrightarrow> EulerMethod_assign this other = Inl OutOfBounds)"
proof -
  have c: "EulerMethod_copy uninitialized other = Inl NullPointer"
    unfolding EulerMethod_copy_def CopyAttributes_no_allocation [OF assms]
    by (simp add: memcpy_def)
  have n: "Gradient this = None \<longrightarrow> EulerMethod_assign this other = Inl NullPointer"
    unfolding EulerMethod_assign_def CopyAttributes_no_allocation [OF assms]
    by (simp add: memcpy_def)
  have s: "\<forall>g og. Gradient this = Some g \<and> length g < NumberOfDOFs other \<and> Gradient other = Some og
             \<longrightarrow> EulerMethod_assign this other = Inl OutOfBounds"
    unfolding EulerMethod_assign_def CopyAttributes_no_allocation [OF assms]
    by (simp add: memcpy_def)
  show ?thesis using c n s by blast
qed

theorem CopyAttributes_skips_allocation_witness:
  "0 < NumberOfDOFs (one_point_optimizer\<lparr>Gradient := Some [1, 2, 3], Displacement := Some [4, 5, 6]\<rparr>)
   \<and> EulerMethod_copy one_point_optimizer
        (one_point_optimizer\<lparr>Gradient := Some [1, 2, 3], Displacement := Some [4, 5, 6]\<rparr>)
      = Inl NullPointer
   \<and> EulerMethod_assign
        (one_point_optimizer\<lparr>Gradient := Some [0], Displacement := Some [0], NumberOfDOFs := 1\<rparr>)
        (one_point_optimizer\<lparr>Gradient := Some [1, 2, 3], Displacement := Some [4, 5, 6]\<rparr>)
      = Inl OutOfBounds"
proof -
  let ?other = "one_point_optimizer\<lparr>Gradient := Some [1, 2, 3], Displacement := Some [4, 5, 6]\<rparr>"
  let ?target = "one_point_optimizer\<lparr>Gradient := Some [0], Displacement := Some [0], NumberOfDOFs := 1\<rparr>"
  have h: "0 < NumberOfDOFs ?other"
    by (simp add: one_point_optimizer_def)
  note r = CopyAttributes_skips_allocation [OF h, of one_point_optimizer ?target]
  have c: "EulerMethod_copy one_point_optimizer ?other = Inl NullPointer"
    using r by (rule conjunct1)
  have g: "Gradient ?target = Some [0] \<and> length [0 :: real] < NumberOfDOFs ?other
      \<and> Gradient ?other = Some [1, 2, 3]"
    by (simp add: one_point_optimizer_def)
  have a: "EulerMethod_assign ?target ?other = Inl OutOfBounds"
    using r g by blast
  show ?thesis using h c a by blast
qed

end
